theory Spec2Isabelle
  imports Main "HOL-Library.Word" "HOL-Library.Sublist"
begin

section \<open>Python text and bytes\<close>

text \<open>
  A Python \<open>str\<close> is a sequence of code points. The model keeps the code points
  0..255, one \<open>char\<close> each, so \<open>length\<close> is Python's \<open>len\<close>. The classification
  functions below follow Python's Unicode tables on that range. \<open>bytes\<close> are lists of
  8-bit words.
\<close>

type_synonym byte = "8 word"

definition py_isspace :: "char \<Rightarrow> bool" where
  \<comment> \<open>\<open>str.isspace\<close>: TAB..CR, FS..US, SPACE, NEL and NBSP\<close>
  "py_isspace c =
     (let n = (of_char c :: nat)
      in (9 \<le> n \<and> n \<le> 13) \<or> (28 \<le> n \<and> n \<le> 32) \<or> n = 133 \<or> n = 160)"

definition py_isalnum :: "char \<Rightarrow> bool" where
  \<comment> \<open>\<open>str.isalnum\<close>: letters and numeric characters\<close>
  "py_isalnum c =
     (let n = (of_char c :: nat)
      in (48 \<le> n \<and> n \<le> 57) \<or> (65 \<le> n \<and> n \<le> 90) \<or> (97 \<le> n \<and> n \<le> 122)
         \<or> n = 170 \<or> n = 178 \<or> n = 179 \<or> n = 181 \<or> n = 185 \<or> n = 186
         \<or> (188 \<le> n \<and> n \<le> 190) \<or> (192 \<le> n \<and> n \<le> 214)
         \<or> (216 \<le> n \<and> n \<le> 246) \<or> 248 \<le> n)"

definition py_lower_char :: "char \<Rightarrow> char" where
  "py_lower_char c =
     (let n = (of_char c :: nat)
      in if (65 \<le> n \<and> n \<le> 90) \<or> (192 \<le> n \<and> n \<le> 214) \<or> (216 \<le> n \<and> n \<le> 222)
         then char_of (n + 32) else c)"

definition py_lower :: "string \<Rightarrow> string" where
  "py_lower s = map py_lower_char s"

definition lstrip_by :: "(char \<Rightarrow> bool) \<Rightarrow> string \<Rightarrow> string" where
  "lstrip_by p s = dropWhile p s"

definition rstrip_by :: "(char \<Rightarrow> bool) \<Rightarrow> string \<Rightarrow> string" where
  "rstrip_by p s = rev (dropWhile p (rev s))"

definition strip_by :: "(char \<Rightarrow> bool) \<Rightarrow> string \<Rightarrow> string" where
  "strip_by p s = rstrip_by p (lstrip_by p s)"

definition py_strip :: "string \<Rightarrow> string" where
  \<comment> \<open>\<open>s.strip()\<close>\<close>
  "py_strip s = strip_by py_isspace s"

definition py_remove :: "char \<Rightarrow> string \<Rightarrow> string" where
  \<comment> \<open>\<open>s.replace(c, '')\<close> for a one-character \<open>c\<close>\<close>
  "py_remove c s = filter (\<lambda>x. x \<noteq> c) s"

definition utf8_char :: "char \<Rightarrow> byte list" where
  "utf8_char c =
     (let n = (of_char c :: nat)
      in if n < 128 then [of_nat n] else [of_nat (192 + n div 64), of_nat (128 + n mod 64)])"

definition utf8_encode :: "string \<Rightarrow> byte list" where
  \<comment> \<open>\<open>s.encode('utf-8')\<close>\<close>
  "utf8_encode s = concat (map utf8_char s)"

fun utf8_decode :: "byte list \<Rightarrow> string option" where
  "utf8_decode [] = Some []"
| "utf8_decode (b # bs) =
     (if unat b < 128 then map_option ((#) (char_of (unat b))) (utf8_decode bs)
      else (case bs of
              [] \<Rightarrow> None
            | b2 # r \<Rightarrow>
                if (unat b = 194 \<or> unat b = 195) \<and> 128 \<le> unat b2 \<and> unat b2 < 192
                then map_option ((#) (char_of ((unat b - 192) * 64 + (unat b2 - 128))))
                       (utf8_decode r)
                else None))"

subsection \<open>Base64\<close>

definition b64_alphabet :: string where
  "b64_alphabet = ''ABCDEFGHIJKLMNOPQRSTUVWXYZabcdefghijklmnopqrstuvwxyz0123456789+/''"

text \<open>The 6-bit groups of the input, three bytes to four groups, the last group of a
  one- or two-byte tail filled with zero bits.\<close>

fun b64_groups :: "byte list \<Rightarrow> nat list" where
  "b64_groups (a # b # c # r) =
     [unat a div 4, (unat a mod 4) * 16 + unat b div 16,
      (unat b mod 16) * 4 + unat c div 64, unat c mod 64] @ b64_groups r"
| "b64_groups [a, b] =
     [unat a div 4, (unat a mod 4) * 16 + unat b div 16, (unat b mod 16) * 4]"
| "b64_groups [a] = [unat a div 4, (unat a mod 4) * 16]"
| "b64_groups [] = []"

definition b64encode :: "byte list \<Rightarrow> string" where
  \<comment> \<open>\<open>base64.b64encode\<close>, with its \<open>=\<close> padding\<close>
  "b64encode bs =
     map (\<lambda>i. b64_alphabet ! i) (b64_groups bs)
       @ replicate ((3 - length bs mod 3) mod 3) (CHR ''='')"

definition urlsafe_translate :: "char \<Rightarrow> char" where
  "urlsafe_translate c =
     (if c = CHR ''+'' then CHR ''-'' else if c = CHR ''/'' then CHR ''_'' else c)"

definition urlsafe_b64encode :: "byte list \<Rightarrow> string" where
  "urlsafe_b64encode bs = map urlsafe_translate (b64encode bs)"

definition token_urlsafe :: "byte list \<Rightarrow> string" where
  \<comment> \<open>\<open>secrets.token_urlsafe(n)\<close> on the \<open>n\<close> bytes \<open>tok\<close> the random source gave:
      \<open>base64.urlsafe_b64encode(tok).rstrip(b'=').decode('ascii')\<close>\<close>
  "token_urlsafe tok = rstrip_by (\<lambda>c. c = CHR ''='') (urlsafe_b64encode tok)"

definition b64_index :: "char \<Rightarrow> nat option" where
  "b64_index c = map_of (zip b64_alphabet [0..<64]) c"

text \<open>A strict decoder for padded Base64 text, the inverse used to read a data URI
  back.\<close>

fun b64decode :: "string \<Rightarrow> byte list option" where
  "b64decode (c1 # c2 # c3 # c4 # r) =
     (case (b64_index c1, b64_index c2) of
        (Some i1, Some i2) \<Rightarrow>
          if r = [] \<and> c4 = CHR ''='' \<and> c3 = CHR ''=''
          then Some [of_nat (i1 * 4 + i2 div 16)]
          else (case b64_index c3 of
                  None \<Rightarrow> None
                | Some i3 \<Rightarrow>
                    if r = [] \<and> c4 = CHR ''=''
                    then Some [of_nat (i1 * 4 + i2 div 16), of_nat ((i2 mod 16) * 16 + i3 div 4)]
                    else (case b64_index c4 of
                            None \<Rightarrow> None
                          | Some i4 \<Rightarrow>
                              map_option
                                ((@) [of_nat (i1 * 4 + i2 div 16),
                                      of_nat ((i2 mod 16) * 16 + i3 div 4),
                                      of_nat ((i3 mod 4) * 64 + i4)])
                                (b64decode r)))
      | _ \<Rightarrow> None)"
| "b64decode [] = Some []"
| "b64decode _ = None"

section \<open>Code generator\<close>

definition generate_code :: "byte list \<Rightarrow> string" where
  \<comment> \<open>\<open>secrets.token_urlsafe(7).replace('-', '').replace('_', '')[:10]\<close>, on the 7
      bytes \<open>tok\<close> drawn from the random source\<close>
  "generate_code tok =
     take 10 (py_remove (CHR ''_'') (py_remove (CHR ''-'') (token_urlsafe tok)))"

definition ascii_alnum :: "char \<Rightarrow> bool" where
  "ascii_alnum c =
     (let n = (of_char c :: nat)
      in (48 \<le> n \<and> n \<le> 57) \<or> (65 \<le> n \<and> n \<le> 90) \<or> (97 \<le> n \<and> n \<le> 122))"

definition url_safe :: "char \<Rightarrow> bool" where
  "url_safe c = (ascii_alnum c \<or> c = CHR ''-'' \<or> c = CHR ''_'')"

definition enc_char :: "nat \<Rightarrow> char" where
  \<comment> \<open>the URL-safe character of a 6-bit group\<close>
  "enc_char i = urlsafe_translate (b64_alphabet ! i)"

section \<open>JSON values as Python sees them\<close>

text \<open>
  The value \<open>request.get_json\<close> returns. A JSON object is the list of its items, one
  per key; the numbers kept are the integers.
\<close>

datatype json =
    JNull
  | JBool bool
  | JInt int
  | JStr string
  | JList "json list"
  | JObj "(string \<times> json) list"

datatype py_error =
    AttributeError | TypeError | IntegrityError | DBAPIError | RequestEntityTooLarge

fun truthy :: "json \<Rightarrow> bool" where
  "truthy JNull = False"
| "truthy (JBool b) = b"
| "truthy (JInt n) = (n \<noteq> 0)"
| "truthy (JStr s) = (s \<noteq> [])"
| "truthy (JList xs) = (xs \<noteq> [])"
| "truthy (JObj kv) = (kv \<noteq> [])"

definition dict_get :: "(string \<times> json) list \<Rightarrow> string \<Rightarrow> json" where
  \<comment> \<open>\<open>data.get(k)\<close>: \<open>None\<close> for a missing key\<close>
  "dict_get kv k = (case map_of kv k of None \<Rightarrow> JNull | Some v \<Rightarrow> v)"

fun py_len :: "json \<Rightarrow> py_error + nat" where
  "py_len (JStr s) = Inr (length s)"
| "py_len (JList xs) = Inr (length xs)"
| "py_len (JObj kv) = Inr (length (remdups (map fst kv)))"
| "py_len _ = Inl TypeError"

section \<open>Configuration, requests, responses\<close>

record config =
  ALLOWED_ORIGIN :: string
  ADMIN_USER :: string
  ADMIN_PASS :: string

datatype http_method = OPTIONS | POST

text \<open>\<open>request.authorization\<close>: absent, or an object whose \<open>username\<close> and
  \<open>password\<close> are \<open>None\<close> for a scheme that carries none.\<close>

record credentials =
  username :: "string option"
  password :: "string option"

text \<open>What the handlers read of a request: \<open>request.method\<close>, the \<open>Origin\<close>
  header and the result of \<open>request.get_json(silent=True)\<close>.\<close>

record request =
  req_method :: http_method
  origin_header :: "string option"
  json_body :: "json option"

datatype body = JsonBody "(string \<times> string) list" | TextBody string

record response =
  status :: nat
  headers :: "(string \<times> string) list"
  body :: body

definition cors_ok :: "config \<Rightarrow> request \<Rightarrow> response \<Rightarrow> response" where
  "cors_ok cfg req resp =
     (let origin = origin_header req; allowed = ALLOWED_ORIGIN cfg
      in if allowed = ''*'' \<or> (origin \<noteq> None \<and> origin \<noteq> Some [] \<and> origin = Some allowed)
         then resp\<lparr>headers := headers resp @
                [(''Access-Control-Allow-Origin'',
                    (case origin of None \<Rightarrow> ''*'' | Some orig \<Rightarrow> if orig \<noteq> [] then orig else ''*'')),
                 (''Vary'', ''Origin''),
                 (''Access-Control-Allow-Credentials'', ''true'')]\<rparr>
         else resp)"

definition require_basic_auth :: "config \<Rightarrow> credentials option \<Rightarrow> bool" where
  "require_basic_auth cfg auth =
     (ADMIN_USER cfg \<noteq> [] \<and> ADMIN_PASS cfg \<noteq> [] \<and>
      (case auth of
         None \<Rightarrow> False
       | Some a \<Rightarrow> username a = Some (ADMIN_USER cfg) \<and> password a = Some (ADMIN_PASS cfg)))"

section \<open>The design table\<close>

record datetime =
  year :: nat
  month :: nat
  day :: nat
  hour :: nat
  minute :: nat
  second :: nat

text \<open>A row of \<open>designs\<close>; \<open>id_pk\<close> is the primary key column \<open>id\<close>.\<close>

record design =
  id_pk :: nat
  code :: string
  product_id :: string
  svg :: string
  state_json :: "string option"
  created_at :: datetime

text \<open>
  The state a request runs in: the rows of the \<open>designs\<close> table in insertion order,
  and how many tokens have been drawn from the random source. The table enforces what
  the columns declare as the default store does: the unique index on \<open>code\<close> and text
  values for text columns; declared lengths are not enforced.
\<close>

record state =
  designs :: "design list"
  drawn :: nat

definition query_first :: "design list \<Rightarrow> string \<Rightarrow> design option" where
  \<comment> \<open>\<open>session.query(Design).filter_by(code=code).first()\<close>\<close>
  "query_first ds c = find (\<lambda>d. code d = c) ds"

definition next_id :: "design list \<Rightarrow> nat" where
  "next_id ds = Suc (foldr max (map id_pk ds) 0)"

section \<open>Submission handler\<close>

text \<open>The collision loop \<open>for _ in range(3)\<close>: \<open>n\<close> iterations left, \<open>c\<close> the
  current candidate, \<open>k\<close> the index of the next token of the random source \<open>rnd\<close>.\<close>

fun collision_loop ::
  "nat \<Rightarrow> (nat \<Rightarrow> byte list) \<Rightarrow> design list \<Rightarrow> string \<Rightarrow> nat \<Rightarrow> string \<times> nat" where
  "collision_loop 0 rnd ds c k = (c, k)"
| "collision_loop (Suc n) rnd ds c k =
     (if query_first ds c = None then (c, k)
      else collision_loop n rnd ds (generate_code (rnd k)) (Suc k))"

definition assign_code :: "(nat \<Rightarrow> byte list) \<Rightarrow> design list \<Rightarrow> nat \<Rightarrow> string \<times> nat" where
  \<comment> \<open>lines 97 to 102: the first candidate, then the loop\<close>
  "assign_code rnd ds k = collision_loop 3 rnd ds (generate_code (rnd k)) (Suc k)"

definition get_data :: "json option \<Rightarrow> json" where
  \<comment> \<open>\<open>request.get_json(silent=True) or {}\<close>\<close>
  "get_data b = (case b of None \<Rightarrow> JObj [] | Some v \<Rightarrow> if truthy v then v else JObj [])"

definition get_product_id :: "(string \<times> json) list \<Rightarrow> py_error + string" where
  \<comment> \<open>\<open>(data.get('productId') or '').strip()\<close>\<close>
  "get_product_id kv =
     (let v = dict_get kv ''productId''
      in if \<not> truthy v then Inr (py_strip [])
         else (case v of JStr s \<Rightarrow> Inr (py_strip s) | _ \<Rightarrow> Inl AttributeError))"

definition get_svg :: "(string \<times> json) list \<Rightarrow> json" where
  \<comment> \<open>\<open>data.get('svg') or ''\<close>\<close>
  "get_svg kv = (let v = dict_get kv ''svg'' in if truthy v then v else JStr [])"

definition state_text :: "(json \<Rightarrow> string) \<Rightarrow> json \<Rightarrow> string option" where
  \<comment> \<open>\<open>(state if isinstance(state, str) else None) or (None if state is None else str(state))\<close>,
      with \<open>py_str\<close> for the builtin \<open>str\<close> on values that are not strings\<close>
  "state_text py_str v =
     (case v of
        JStr s \<Rightarrow> Some s
      | JNull \<Rightarrow> None
      | _ \<Rightarrow> Some (py_str v))"

definition error_response :: "nat \<Rightarrow> string \<Rightarrow> response" where
  \<comment> \<open>\<open>jsonify({ 'error': msg }), status\<close>\<close>
  "error_response st msg = \<lparr>status = st, headers = [], body = JsonBody [(''error'', msg)]\<rparr>"

definition new_design ::
  "design list \<Rightarrow> string \<Rightarrow> string \<Rightarrow> string \<Rightarrow> string option \<Rightarrow> datetime \<Rightarrow> design" where
  \<comment> \<open>\<open>Design(code=code, product_id=product_id, svg=svg, state_json=...)\<close>, with the
      key and the timestamp the insert assigns\<close>
  "new_design ds c pid s stt now =
     \<lparr>id_pk = next_id ds, code = c, product_id = pid, svg = s,
      state_json = stt, created_at = now\<rparr>"

definition commit_design ::
  "design list \<Rightarrow> string \<Rightarrow> string \<Rightarrow> json \<Rightarrow> string option \<Rightarrow> datetime \<Rightarrow> py_error + design list" where
  \<comment> \<open>\<open>session.add(design); session.commit()\<close>: the insert fails on a value that is
      not text, and on a code that a row already has\<close>
  "commit_design ds c pid sv stt now =
     (case sv of
        JStr s \<Rightarrow>
          if query_first ds c \<noteq> None then Inl IntegrityError
          else Inr (ds @ [new_design ds c pid s stt now])
      | _ \<Rightarrow> Inl DBAPIError)"

definition save_design ::
  "config \<Rightarrow> (json \<Rightarrow> string) \<Rightarrow> (nat \<Rightarrow> byte list) \<Rightarrow> datetime \<Rightarrow> request \<Rightarrow> state
     \<Rightarrow> (py_error + response) \<times> state" where
  "save_design cfg py_str rnd now req st =
     (if req_method req = OPTIONS
      then (Inr (cors_ok cfg req
                   \<lparr>status = 204,
                    headers = [(''Access-Control-Allow-Methods'', ''POST, OPTIONS''),
                               (''Access-Control-Allow-Headers'', ''Content-Type, Authorization'')],
                    body = TextBody []\<rparr>), st)
      else if ALLOWED_ORIGIN cfg \<noteq> ''*'' \<and> origin_header req \<noteq> Some (ALLOWED_ORIGIN cfg)
      then (Inr (error_response 403 ''Origin not allowed''), st)
      else (case get_data (json_body req) of
              JObj kv \<Rightarrow>
                (case get_product_id kv of
                   Inl e \<Rightarrow> (Inl e, st)
                 | Inr pid \<Rightarrow>
                     let sv = get_svg kv; state_v = dict_get kv ''state''
                     in if pid = [] \<or> \<not> truthy sv
                        then (Inr (cors_ok cfg req
                                (error_response 400 ''productId and svg are required'')), st)
                        else (case py_len sv of
                                Inl e \<Rightarrow> (Inl e, st)
                              | Inr n \<Rightarrow>
                                  if n > 1500000
                                  then (Inr (cors_ok cfg req (error_response 413 ''SVG too large'')), st)
                                  else let (c, k) = assign_code rnd (designs st) (drawn st)
                                       in (case commit_design (designs st) c pid sv
                                                  (state_text py_str state_v) now of
                                             Inl e \<Rightarrow> (Inl e, st\<lparr>drawn := k\<rparr>)
                                           | Inr ds \<Rightarrow>
                                               (Inr (cors_ok cfg req
                                                  \<lparr>status = 200, headers = [],
                                                   body = JsonBody [(''code'', c)]\<rparr>),
                                                \<lparr>designs = ds, drawn = k\<rparr>))))
            | _ \<Rightarrow> (Inl AttributeError, st)))"

section \<open>Retrieval renderer\<close>

definition digit :: "nat \<Rightarrow> char" where
  "digit d = char_of (48 + d mod 10)"

definition dec2 :: "nat \<Rightarrow> string" where
  "dec2 n = [digit (n div 10), digit n]"

definition dec4 :: "nat \<Rightarrow> string" where
  "dec4 n = [digit (n div 1000), digit (n div 100), digit (n div 10), digit n]"

definition strftime :: "datetime \<Rightarrow> string" where
  \<comment> \<open>\<open>strftime('%Y-%m-%d %H:%M:%S')\<close>, years of four digits\<close>
  "strftime t =
     dec4 (year t) @ ''-'' @ dec2 (month t) @ ''-'' @ dec2 (day t) @ '' ''
       @ dec2 (hour t) @ '':'' @ dec2 (minute t) @ '':'' @ dec2 (second t)"

definition dash_non_alnum :: "char \<Rightarrow> char" where
  \<comment> \<open>\<open>ch if ch.isalnum() else '-'\<close>\<close>
  "dash_non_alnum ch = (if py_isalnum ch then ch else CHR ''-'')"

definition safe_name :: "string \<Rightarrow> string" where
  \<comment> \<open>line 133\<close>
  "safe_name pid =
     py_lower (strip_by (\<lambda>c. c = CHR ''-'')
       (map dash_non_alnum (if pid \<noteq> [] then pid else ''design'')))"

definition download_name :: "string \<Rightarrow> string \<Rightarrow> string" where
  \<comment> \<open>the \<open>download\<close> attribute of line 159\<close>
  "download_name pid c = safe_name pid @ ''-'' @ c @ ''.svg''"

definition svg_data_url :: "string \<Rightarrow> string" where
  \<comment> \<open>line 134\<close>
  "svg_data_url s = ''data:image/svg+xml;base64,'' @ b64encode (utf8_encode s)"

abbreviation NL :: char where "NL \<equiv> CHR 0x0A"
abbreviation SQ :: char where "SQ \<equiv> CHR 0x27"
abbreviation DQ :: char where "DQ \<equiv> CHR 0x22"

definition page_head :: "string \<Rightarrow> string" where
  "page_head c =
     [NL] @ ''<!doctype html>'' @ [NL] @ ''<html>'' @ [NL] @ ''  <head>'' @ [NL]
     @ ''    <meta charset='utf-8'>'' @ [NL]
     @ ''    <meta name='viewport' content='width=device-width, initial-scale=1'>'' @ [NL]
     @ ''    <title>Design '' @ c @ ''</title>'' @ [NL]
     @ ''    <style>'' @ [NL]
     @ ''      body { font-family: Arial, Helvetica, sans-serif; margin: 16px; }'' @ [NL]
     @ ''      .wrap { max-width: 980px; margin: 0 auto; }'' @ [NL]
     @ ''      .meta { color:#666; font-size: 13px; margin-bottom: 8px; }'' @ [NL]
     @ ''      .preview { border:1px solid #ddd; border-radius:8px; overflow:auto; background:#fafafa; padding:8px; }'' @ [NL]
     @ ''      .actions { margin-top:12px; display:flex; gap:8px; }'' @ [NL]
     @ ''      .btn { border:1px solid #ddd; background:#fff; padding:8px 10px; border-radius:6px; text-decoration:none; color:#111; }'' @ [NL]
     @ ''    </style>'' @ [NL] @ ''  </head>'' @ [NL] @ ''  <body>'' @ [NL]
     @ ''    <div class='wrap'>'' @ [NL]
     @ ''      <h2>Design code: '' @ c @ ''</h2>'' @ [NL]"

definition page_meta :: "string \<Rightarrow> string \<Rightarrow> string" where
  \<comment> \<open>line 154; the separator is U+00B7\<close>
  "page_meta pid ts =
     ''      <div class='meta'>Product: '' @ pid @ [CHR '' '', CHR 0xB7, CHR '' '']
     @ ''Created: '' @ ts @ '' UTC</div>'' @ [NL]"

definition page_preview :: "string \<Rightarrow> string" where
  "page_preview url =
     ''      <div class='preview'>'' @ [NL]
     @ ''        <img src='' @ [SQ] @ url @ [SQ]
     @ '' alt='SVG preview' style='max-width:100%; height:auto; display:block;'>'' @ [NL]
     @ ''      </div>'' @ [NL]"

definition page_actions :: "string \<Rightarrow> string \<Rightarrow> string" where
  "page_actions url fname =
     ''      <div class='actions'>'' @ [NL]
     @ ''        <a class='btn' href='' @ [SQ] @ url @ [SQ] @ '' download='' @ [SQ] @ fname @ [SQ]
     @ ''>Download SVG</a>'' @ [NL]
     @ ''      </div>'' @ [NL]"

definition page_foot :: string where
  "page_foot =
     ''    </div>'' @ [NL] @ ''  </body>'' @ [NL] @ ''  </html>'' @ [NL] @ ''            ''"

definition html_page :: "string \<Rightarrow> design \<Rightarrow> string" where
  \<comment> \<open>the f-string of lines 135 to 164\<close>
  "html_page c d =
     page_head c @ page_meta (product_id d) (strftime (created_at d))
     @ page_preview (svg_data_url (svg d))
     @ page_actions (svg_data_url (svg d)) (download_name (product_id d) c)
     @ page_foot"

definition view_design :: "config \<Rightarrow> credentials option \<Rightarrow> string \<Rightarrow> design list \<Rightarrow> response" where
  "view_design cfg auth c ds =
     (if ADMIN_USER cfg \<noteq> [] \<and> ADMIN_PASS cfg \<noteq> [] \<and> \<not> require_basic_auth cfg auth
      then \<lparr>status = 401,
            headers = [(''WWW-Authenticate'', ''Basic realm='' @ [DQ] @ ''Designs'' @ [DQ])],
            body = TextBody ''Authentication required''\<rparr>
      else (case query_first ds c of
              None \<Rightarrow> \<lparr>status = 404, headers = [], body = TextBody ''Code not found''\<rparr>
            | Some d \<Rightarrow> \<lparr>status = 200, headers = [], body = TextBody (html_page c d)\<rparr>))"

section \<open>Submissions and example inputs\<close>

definition origin_allowed :: "config \<Rightarrow> request \<Rightarrow> bool" where
  \<comment> \<open>the request passes the check of line 81\<close>
  "origin_allowed cfg req =
     (ALLOWED_ORIGIN cfg = ''*'' \<or> origin_header req = Some (ALLOWED_ORIGIN cfg))"

definition submitted :: "request \<Rightarrow> (json \<times> json \<times> json) option" where
  \<comment> \<open>what \<open>data.get\<close> gives for the three recognised keys, when the body is an object\<close>
  "submitted req =
     (case get_data (json_body req) of
        JObj kv \<Rightarrow> Some (dict_get kv ''productId'', dict_get kv ''svg'', dict_get kv ''state'')
      | _ \<Rightarrow> None)"

definition well_formed :: "config \<Rightarrow> request \<Rightarrow> string \<Rightarrow> string \<Rightarrow> json \<Rightarrow> bool" where
  \<comment> \<open>a POST from an allowed origin with text \<open>productId\<close> (not blank) and text
      \<open>svg\<close> (not empty)\<close>
  "well_formed cfg req p s stv =
     (req_method req = POST \<and> origin_allowed cfg req \<and>
      submitted req = Some (JStr p, JStr s, stv) \<and> py_strip p \<noteq> [] \<and> s \<noteq> [])"

definition MAX_CONTENT_LENGTH :: nat where
  \<comment> \<open>line 33\<close>
  "MAX_CONTENT_LENGTH = 2 * 1024 * 1024"

definition save_design_limited ::
  "config \<Rightarrow> (json \<Rightarrow> string) \<Rightarrow> (nat \<Rightarrow> byte list) \<Rightarrow> datetime \<Rightarrow> nat \<Rightarrow> request \<Rightarrow> state
     \<Rightarrow> (py_error + response) \<times> state" where
  \<comment> \<open>\<open>save_design\<close> on a request whose body has \<open>n\<close> bytes, under the limit of
      line 33: the handler first reads the body at line 84, and reading a body longer
      than the limit raises the framework's \<open>RequestEntityTooLarge\<close> there (answered
      413); the preflight and the origin check come before and do not read it\<close>
  "save_design_limited cfg py_str rnd now n req st =
     (if req_method req = POST \<and> origin_allowed cfg req \<and> MAX_CONTENT_LENGTH < n
      then (Inl RequestEntityTooLarge, st)
      else save_design cfg py_str rnd now req st)"

definition ok_response :: "config \<Rightarrow> request \<Rightarrow> string \<Rightarrow> response" where
  \<comment> \<open>\<open>cors_ok(jsonify({ 'code': code }))\<close>\<close>
  "ok_response cfg req c =
     cors_ok cfg req \<lparr>status = 200, headers = [], body = JsonBody [(''code'', c)]\<rparr>"

definition cfg_open :: config where
  "cfg_open = \<lparr>ALLOWED_ORIGIN = ''*'', ADMIN_USER = [], ADMIN_PASS = []\<rparr>"

definition cfg_locked :: config where
  "cfg_locked =
     \<lparr>ALLOWED_ORIGIN = ''https://example.com'', ADMIN_USER = ''admin'', ADMIN_PASS = ''s3cret''\<rparr>"

definition rnd_ex :: "nat \<Rightarrow> byte list" where
  "rnd_ex i = [of_nat i, 1, 2, 3, 4, 5, 6]"

definition now_ex :: datetime where
  "now_ex = \<lparr>year = 2025, month = 1, day = 2, hour = 3, minute = 4, second = 5\<rparr>"

definition post_ex :: "string option \<Rightarrow> (string \<times> json) list \<Rightarrow> request" where
  "post_ex orig kv = \<lparr>req_method = POST, origin_header = orig, json_body = Some (JObj kv)\<rparr>"

definition row_ex :: "nat \<Rightarrow> string \<Rightarrow> string \<Rightarrow> design" where
  "row_ex i c pid =
     \<lparr>id_pk = i, code = c, product_id = pid, svg = ''<svg/>'', state_json = None,
      created_at = now_ex\<rparr>"

definition st_empty :: state where
  "st_empty = \<lparr>designs = [], drawn = 0\<rparr>"

definition req_ex :: request where
  "req_ex = post_ex None [(''productId'', JStr ''mug''), (''svg'', JStr ''<svg/>'')]"

definition st_three :: state where
  \<comment> \<open>a table that already holds the codes of the first three tokens of \<open>rnd_ex\<close>\<close>
  "st_three =
     \<lparr>designs = [row_ex 1 ''AAECAwQFBg'' ''cup'', row_ex 2 ''AQECAwQFBg'' ''cup'',
                 row_ex 3 ''AgECAwQFBg'' ''cup''],
      drawn = 0\<rparr>"

definition st_four :: state where
  \<comment> \<open>a table that already holds the codes of the first four tokens of \<open>rnd_ex\<close>\<close>
  "st_four =
     \<lparr>designs = [row_ex 1 ''AAECAwQFBg'' ''cup'', row_ex 2 ''AQECAwQFBg'' ''cup'',
                 row_ex 3 ''AgECAwQFBg'' ''cup'', row_ex 4 ''AwECAwQFBg'' ''cup''],
      drawn = 0\<rparr>"

section \<open>Named responses\<close>

definition challenge :: response where
  \<comment> \<open>lines 122 to 124\<close>
  "challenge =
     \<lparr>status = 401,
      headers = [(''WWW-Authenticate'', ''Basic realm='' @ [DQ] @ ''Designs'' @ [DQ])],
      body = TextBody ''Authentication required''\<rparr>"

definition lookup_page :: "string \<Rightarrow> design list \<Rightarrow> response" where
  \<comment> \<open>lines 128 to 165, what \<open>view_design\<close> answers behind the gate\<close>
  "lookup_page c ds =
     (case query_first ds c of
        None \<Rightarrow> \<lparr>status = 404, headers = [], body = TextBody ''Code not found''\<rparr>
      | Some d \<Rightarrow> \<lparr>status = 200, headers = [], body = TextBody (html_page c d)\<rparr>)"

definition forbidden :: response where
  \<comment> \<open>line 82\<close>
  "forbidden = \<lparr>status = 403, headers = [], body = JsonBody [(''error'', ''Origin not allowed'')]\<rparr>"

definition too_large :: "config \<Rightarrow> request \<Rightarrow> response" where
  \<comment> \<open>line 92\<close>
  "too_large cfg req =
     cors_ok cfg req \<lparr>status = 413, headers = [], body = JsonBody [(''error'', ''SVG too large'')]\<rparr>"

definition svg_of_length :: "nat \<Rightarrow> string" where
  "svg_of_length n = replicate n (CHR ''a'')"

definition big_req :: "nat \<Rightarrow> request" where
  "big_req n = post_ex None [(''productId'', JStr ''mug''), (''svg'', JStr (svg_of_length n))]"

definition required_fields :: "config \<Rightarrow> request \<Rightarrow> response" where
  \<comment> \<open>line 90\<close>
  "required_fields cfg req =
     cors_ok cfg req
       \<lparr>status = 400, headers = [], body = JsonBody [(''error'', ''productId and svg are required'')]\<rparr>"

section \<open>The file name as the specification words it\<close>




definition b64_at :: "nat \<Rightarrow> char" where
  \<comment> \<open>the character of a 6-bit group in the standard alphabet\<close>
  "b64_at i = b64_alphabet ! i"

section \<open>Markup and the rendered page\<close>

text \<open>HTML escaping as the specification asks for it, and the characters it is about.\<close>

definition html_escape_char :: "char \<Rightarrow> string" where
  "html_escape_char c =
     (if c = CHR ''&'' then ''&amp;'' else if c = CHR ''<'' then ''&lt;''
      else if c = CHR ''>'' then ''&gt;'' else if c = DQ then ''&quot;''
      else if c = SQ then ''&#x27;'' else [c])"

definition html_escape :: "string \<Rightarrow> string" where
  "html_escape s = concat (map html_escape_char s)"

definition markup_free :: "char \<Rightarrow> bool" where
  "markup_free c = (c \<noteq> CHR ''<'' \<and> c \<noteq> CHR ''>'' \<and> c \<noteq> CHR ''&'' \<and> c \<noteq> SQ \<and> c \<noteq> DQ)"

definition b64_text_char :: "char \<Rightarrow> bool" where
  "b64_text_char c = (ascii_alnum c \<or> c = CHR ''+'' \<or> c = CHR ''/'' \<or> c = CHR ''='')"

definition row_markup :: design where
  "row_markup = row_ex 1 ''AAECAwQFBg'' ''<b>Mug</b> & co''"

definition page_response :: "string \<Rightarrow> design \<Rightarrow> response" where
  \<comment> \<open>line 165\<close>
  "page_response c d = \<lparr>status = 200, headers = [], body = TextBody (html_page c d)\<rparr>"

definition req_padded :: request where
  "req_padded = post_ex None [(''productId'', JStr '' mug ''), (''svg'', JStr ''<svg/>'')]"

definition row_mug :: design where
  "row_mug = new_design [] ''AAECAwQFBg'' ''mug'' ''<svg/>'' None now_ex"

section \<open>Facts about the encodings\<close>

lemma all_below_64: "list_all P [0..<64] \<Longrightarrow> i < 64 \<Longrightarrow> P i"
  by (simp add: list_all_iff)

lemma b64_alphabet_not_pad: "i < 64 \<Longrightarrow> b64_alphabet ! i \<noteq> CHR ''=''"
proof -
  have "list_all (\<lambda>i. b64_alphabet ! i \<noteq> CHR ''='') [0..<64]"
    by code_simp
  then show "i < 64 \<Longrightarrow> b64_alphabet ! i \<noteq> CHR ''=''"
    by (rule all_below_64)
qed

lemma b64_index_alphabet: "i < 64 \<Longrightarrow> b64_index (b64_alphabet ! i) = Some i"
proof -
  have "list_all (\<lambda>i. b64_index (b64_alphabet ! i) = Some i) [0..<64]"
    by code_simp
  then show "i < 64 \<Longrightarrow> b64_index (b64_alphabet ! i) = Some i"
    by (rule all_below_64)
qed

lemma enc_char_safe:
  "i < 64 \<Longrightarrow> enc_char i \<noteq> CHR ''='' \<and> (enc_char i = CHR ''-'' \<or> enc_char i = CHR ''_'' \<or> ascii_alnum (enc_char i))"
proof -
  have "list_all (\<lambda>i. enc_char i \<noteq> CHR ''='' \<and> (enc_char i = CHR ''-'' \<or> enc_char i = CHR ''_'' \<or> ascii_alnum (enc_char i))) [0..<64]"
    by code_simp
  then show "i < 64 \<Longrightarrow> enc_char i \<noteq> CHR ''='' \<and> (enc_char i = CHR ''-'' \<or> enc_char i = CHR ''_'' \<or> ascii_alnum (enc_char i))"
    by (rule all_below_64)
qed

lemma enc_char_tail:
  "k < 4 \<Longrightarrow> ascii_alnum (enc_char (k * 16))"
proof -
  have "list_all (\<lambda>k. ascii_alnum (enc_char (k * 16))) [0..<4]"
    by code_simp
  then show "k < 4 \<Longrightarrow> ascii_alnum (enc_char (k * 16))"
    by (simp add: list_all_iff)
qed

lemma unat_byte_lt: "unat (b :: byte) < 256"
  using unsigned_less [of b, where ?'a = nat] by simp

lemma b64_groups_lt: "list_all (\<lambda>i. i < 64) (b64_groups bs)"
proof (induction bs rule: b64_groups.induct)
  case (1 a b c r)
  have "unat a < 256" "unat b < 256" "unat c < 256" by (rule unat_byte_lt)+
  then have "unat a div 4 < 64" "unat a mod 4 * 16 + unat b div 16 < 64"
    "unat b mod 16 * 4 + unat c div 64 < 64" "unat c mod 64 < 64" by arith+
  then show ?case using 1 by simp
next
  case (2 a b)
  have "unat a < 256" "unat b < 256" by (rule unat_byte_lt)+
  then have "unat a div 4 < 64" "unat a mod 4 * 16 + unat b div 16 < 64"
    "unat b mod 16 * 4 < 64" by arith+
  then show ?case by simp
next
  case (3 a)
  have "unat a < 256" by (rule unat_byte_lt)
  then have "unat a div 4 < 64" "unat a mod 4 * 16 < 64" by arith+
  then show ?case by simp
qed simp

lemma dropWhile_replicate: "p c \<Longrightarrow> dropWhile p (replicate n c @ ys) = dropWhile p ys"
  by (induction n) simp_all

lemma rstrip_by_replicate: "p c \<Longrightarrow> rstrip_by p (xs @ replicate n c) = rstrip_by p xs"
  by (simp add: rstrip_by_def dropWhile_replicate)

lemma rstrip_by_none: "list_all (\<lambda>x. \<not> p x) xs \<Longrightarrow> rstrip_by p xs = xs"
  by (cases xs rule: rev_cases) (simp_all add: rstrip_by_def)

lemma enc_groups_no_pad: "list_all (\<lambda>x. \<not> x = CHR ''='') (map enc_char (b64_groups bs))"
proof -
  have "enc_char i \<noteq> CHR ''=''" if "i \<in> set (b64_groups bs)" for i
  proof -
    have "i < 64" using b64_groups_lt [of bs] that by (simp add: list_all_iff)
    then show ?thesis using enc_char_safe [of i] by simp
  qed
  then show ?thesis by (simp add: list_all_iff)
qed

lemma token_urlsafe_eq: "token_urlsafe bs = map enc_char (b64_groups bs)"
proof -
  have "urlsafe_b64encode bs =
      map enc_char (b64_groups bs) @ replicate ((3 - length bs mod 3) mod 3) (CHR ''='')"
    by (simp add: urlsafe_b64encode_def b64encode_def enc_char_def urlsafe_translate_def)
  then show ?thesis
    by (simp add: token_urlsafe_def rstrip_by_replicate rstrip_by_none enc_groups_no_pad)
qed

lemma generate_code_eq:
  "generate_code bs =
     take 10 (filter (\<lambda>c. c \<noteq> CHR ''_'') (filter (\<lambda>c. c \<noteq> CHR ''-'') (map enc_char (b64_groups bs))))"
  by (simp only: generate_code_def py_remove_def token_urlsafe_eq)

lemma generate_code_alnum: "list_all ascii_alnum (generate_code bs)"
proof -
  have "ascii_alnum c" if "c \<in> set (generate_code bs)" for c
  proof -
    from that have "c \<in> set (filter (\<lambda>c. c \<noteq> CHR ''_'') (filter (\<lambda>c. c \<noteq> CHR ''-'') (map enc_char (b64_groups bs))))"
      unfolding generate_code_eq by (rule in_set_takeD)
    then obtain i where i: "i \<in> set (b64_groups bs)" "c = enc_char i" "c \<noteq> CHR ''_''" "c \<noteq> CHR ''-''"
      by auto
    have "i < 64" using b64_groups_lt [of bs] i(1)
      by (simp add: list_all_iff)
    then show ?thesis using enc_char_safe [of i] i by simp
  qed
  then show ?thesis by (simp add: list_all_iff)
qed

lemma b64_groups_tail:
  "length bs mod 3 = 1 \<Longrightarrow>
     b64_groups bs \<noteq> [] \<and> last (b64_groups bs) = (unat (last bs) mod 4) * 16"
proof (induction bs rule: b64_groups.induct)
  case (1 a b c r)
  from 1 have "length r mod 3 = 1" by simp
  with 1 have "b64_groups r \<noteq> [] \<and> last (b64_groups r) = (unat (last r) mod 4) * 16" by simp
  moreover from this have "r \<noteq> []" by auto
  ultimately show ?case by simp
qed simp_all

lemma generate_code_nonempty:
  assumes "length bs = 7"
  shows "generate_code bs \<noteq> []"
proof -
  let ?k = "unat (last bs) mod 4"
  from assms have "length bs mod 3 = 1" by simp
  then have g: "b64_groups bs \<noteq> []" "last (b64_groups bs) = ?k * 16"
    using b64_groups_tail [of bs] by simp_all
  then have mem: "?k * 16 \<in> set (b64_groups bs)"
    using last_in_set [of "b64_groups bs"] by simp
  have "?k < 4" by simp
  then have "ascii_alnum (enc_char (?k * 16))" by (rule enc_char_tail)
  then have "enc_char (?k * 16) \<noteq> CHR ''_''" "enc_char (?k * 16) \<noteq> CHR ''-''"
    by (auto simp: ascii_alnum_def)
  with mem have "enc_char (?k * 16) \<in> set (filter (\<lambda>c. c \<noteq> CHR ''_'') (filter (\<lambda>c. c \<noteq> CHR ''-'') (map enc_char (b64_groups bs))))"
    by simp
  then have "filter (\<lambda>c. c \<noteq> CHR ''_'') (filter (\<lambda>c. c \<noteq> CHR ''-'') (map enc_char (b64_groups bs))) \<noteq> []"
    by (metis empty_iff list.set(1))
  then show ?thesis by (simp add: generate_code_eq)
qed

lemma generate_code_all_ones: "generate_code [255, 255, 255, 255, 255, 255, 255] = ''w''"
  by code_simp

lemma unat_of_nat_byte: "n < 256 \<Longrightarrow> unat (of_nat n :: byte) = n"
  by (simp add: unat_of_nat)

lemma utf8_decode_char:
  "utf8_decode (utf8_char c @ bs) = map_option ((#) c) (utf8_decode bs)"
proof -
  let ?n = "of_char c :: nat"
  have lt: "?n < 256" by simp
  show ?thesis
  proof (cases "?n < 128")
    case True
    then show ?thesis by (simp add: utf8_char_def unat_of_nat_byte)
  next
    case False
    define b1 :: byte where "b1 = of_nat (192 + ?n div 64)"
    define b2 :: byte where "b2 = of_nat (128 + ?n mod 64)"
    from False lt have d: "?n div 64 = 2 \<or> ?n div 64 = 3" by arith
    have m: "?n mod 64 < 64" by simp
    have hi: "192 + ?n div 64 < 256" "128 + ?n mod 64 < 256" using d m by arith+
    have u1: "unat b1 = 192 + ?n div 64" unfolding b1_def using hi(1) by (rule unat_of_nat_byte)
    have u2: "unat b2 = 128 + ?n mod 64" unfolding b2_def using hi(2) by (rule unat_of_nat_byte)
    have enc: "utf8_char c = [b1, b2]"
      using False by (simp only: utf8_char_def Let_def b1_def b2_def if_False)
    have rebuilt: "(unat b1 - 192) * 64 + (unat b2 - 128) = ?n" by (simp add: u1 u2)
    have "utf8_decode (b1 # b2 # bs) = map_option ((#) (char_of ?n)) (utf8_decode bs)"
      using d m by (simp only: utf8_decode.simps list.case rebuilt) (simp add: u1 u2)
    then show ?thesis by (simp add: enc)
  qed
qed

lemma utf8_roundtrip: "utf8_decode (utf8_encode s) = Some s"
  by (induction s) (simp_all add: utf8_encode_def utf8_decode_char)

lemma b64_at_index: "i < 64 \<Longrightarrow> b64_index (b64_at i) = Some i"
  by (simp add: b64_at_def b64_index_alphabet)

lemma b64_at_not_pad: "i < 64 \<Longrightarrow> b64_at i \<noteq> CHR ''=''"
  by (simp add: b64_at_def b64_alphabet_not_pad)

lemma b64encode_three:
  "b64encode (a # b # c # r) =
     b64_at (unat a div 4) # b64_at ((unat a mod 4) * 16 + unat b div 16)
       # b64_at ((unat b mod 16) * 4 + unat c div 64) # b64_at (unat c mod 64) # b64encode r"
  by (simp add: b64encode_def b64_at_def)

lemma b64encode_two:
  "b64encode [a, b] =
     [b64_at (unat a div 4), b64_at ((unat a mod 4) * 16 + unat b div 16),
      b64_at ((unat b mod 16) * 4), CHR ''='']"
  by (simp add: b64encode_def b64_at_def)

lemma b64encode_one:
  "b64encode [a] = [b64_at (unat a div 4), b64_at ((unat a mod 4) * 16), CHR ''='', CHR ''='']"
  by (simp add: b64encode_def b64_at_def numeral_2_eq_2)

lemma b64encode_nil: "b64encode [] = []"
  by (simp add: b64encode_def)

lemma byte_of_unat: "of_nat (unat (w :: 8 word)) = w"
  by simp

lemma join_div: "y < k \<Longrightarrow> (x * k + y) div k = (x :: nat)"
  by simp

lemma join_mod: "y < k \<Longrightarrow> (x * k + y) mod k = (y :: nat)"
  by simp

lemma join_lt: "x < m \<Longrightarrow> y < k \<Longrightarrow> x * k + y < m * (k :: nat)"
proof -
  assume a: "x < m" "y < k"
  then have "Suc x \<le> m" by simp
  then have "Suc x * k \<le> m * k" by (rule mult_le_mono1)
  with a(2) show ?thesis by simp
qed

lemma sextets:
  fixes a b c :: nat
  assumes "a < 256" "b < 256" "c < 256"
  shows "a div 4 < 64" "a mod 4 * 16 + b div 16 < 64" "b mod 16 * 4 + c div 64 < 64"
    "c mod 64 < 64" "b mod 16 * 4 < 64" "a mod 4 * 16 < 64"
    "a div 4 * 4 + (a mod 4 * 16 + b div 16) div 16 = a"
    "(a mod 4 * 16 + b div 16) mod 16 * 16 + (b mod 16 * 4 + c div 64) div 4 = b"
    "(b mod 16 * 4 + c div 64) mod 4 * 64 + c mod 64 = c"
    "(a mod 4 * 16 + b div 16) mod 16 * 16 + (b mod 16 * 4) div 4 = b"
    "a div 4 * 4 + (a mod 4 * 16) div 16 = a"
proof -
  have a4: "a mod 4 < 4" and b16: "b mod 16 < 16" and c64: "c mod 64 < 64" by simp_all
  have ad: "a div 4 < 64" using assms(1) by (simp add: less_mult_imp_div_less)
  have bd: "b div 16 < 16" using assms(2) by (simp add: less_mult_imp_div_less)
  have cd: "c div 64 < 4" using assms(3) by (simp add: less_mult_imp_div_less)
  show "a div 4 < 64" by (rule ad)
  show "a mod 4 * 16 + b div 16 < 64" using join_lt [OF a4 bd] by simp
  show "b mod 16 * 4 + c div 64 < 64" using join_lt [OF b16 cd] by simp
  show "c mod 64 < 64" by (rule c64)
  show "b mod 16 * 4 < 64" using b16 by simp
  show "a mod 4 * 16 < 64" using a4 by simp
  show "a div 4 * 4 + (a mod 4 * 16 + b div 16) div 16 = a"
    by (simp only: join_div [OF bd] div_mult_mod_eq)
  show "(a mod 4 * 16 + b div 16) mod 16 * 16 + (b mod 16 * 4 + c div 64) div 4 = b"
    by (simp only: join_mod [OF bd] join_div [OF cd] div_mult_mod_eq)
  show "(b mod 16 * 4 + c div 64) mod 4 * 64 + c mod 64 = c"
    by (simp only: join_mod [OF cd] div_mult_mod_eq)
  show "(a mod 4 * 16 + b div 16) mod 16 * 16 + (b mod 16 * 4) div 4 = b"
    by (simp only: join_mod [OF bd]) simp
  show "a div 4 * 4 + (a mod 4 * 16) div 16 = a"
    by simp
qed

lemma b64decode_group:
  assumes "i1 < 64" "i2 < 64" "i3 < 64" "i4 < 64"
  shows "b64decode (b64_at i1 # b64_at i2 # b64_at i3 # b64_at i4 # r) =
     map_option ((@) [of_nat (i1 * 4 + i2 div 16), of_nat ((i2 mod 16) * 16 + i3 div 4),
                      of_nat ((i3 mod 4) * 64 + i4)]) (b64decode r)"
  using assms by (simp add: b64_at_index b64_at_not_pad)

lemma b64decode_pad1:
  assumes "i1 < 64" "i2 < 64" "i3 < 64"
  shows "b64decode [b64_at i1, b64_at i2, b64_at i3, CHR ''=''] =
     Some [of_nat (i1 * 4 + i2 div 16), of_nat ((i2 mod 16) * 16 + i3 div 4)]"
  using assms by (simp add: b64_at_index b64_at_not_pad)

lemma b64decode_pad2:
  assumes "i1 < 64" "i2 < 64"
  shows "b64decode [b64_at i1, b64_at i2, CHR ''='', CHR ''=''] = Some [of_nat (i1 * 4 + i2 div 16)]"
  using assms by (simp add: b64_at_index)

lemma b64_roundtrip: "b64decode (b64encode bs) = Some bs"
proof (induction bs rule: b64_groups.induct)
  case (1 a b c r)
  note s = sextets [OF unat_byte_lt [of a] unat_byte_lt [of b] unat_byte_lt [of c]]
  show ?case
    by (simp only: b64encode_three b64decode_group [OF s(1) s(2) s(3) s(4)] s(7) s(8) s(9) 1
        byte_of_unat option.map append_Cons append_Nil)
next
  case (2 a b)
  note s = sextets [OF unat_byte_lt [of a] unat_byte_lt [of b] unat_byte_lt [of b]]
  show ?case
    by (simp only: b64encode_two b64decode_pad1 [OF s(1) s(2) s(5)] s(7) s(10) byte_of_unat)
next
  case (3 a)
  note s = sextets [OF unat_byte_lt [of a] unat_byte_lt [of a] unat_byte_lt [of a]]
  show ?case
    by (simp only: b64encode_one b64decode_pad2 [OF s(1) s(6)] s(11) byte_of_unat)
next
  case 4
  show ?case by (simp add: b64encode_nil)
qed

section \<open>Facts about the file name\<close>

















section \<open>Facts about the rendered page\<close>

lemma length_b64_alphabet: "length b64_alphabet = 64"
  by (simp add: b64_alphabet_def)

lemma b64_alphabet_text: "list_all b64_text_char b64_alphabet"
  by (simp add: b64_alphabet_def b64_text_char_def ascii_alnum_def)

lemma b64_at_text: "i < 64 \<Longrightarrow> b64_text_char (b64_at i)"
proof -
  assume "i < 64"
  then have "b64_alphabet ! i \<in> set b64_alphabet" by (simp add: length_b64_alphabet)
  then show ?thesis using b64_alphabet_text by (simp add: list_all_iff b64_at_def)
qed


lemma b64encode_text: "list_all b64_text_char (b64encode bs)"
proof -
  have "b64_text_char (b64_alphabet ! i)" if "i \<in> set (b64_groups bs)" for i
  proof -
    have "i < 64" using b64_groups_lt [of bs] that by (simp add: list_all_iff)
    then show ?thesis using b64_at_text [of i] by (simp add: b64_at_def)
  qed
  moreover have "b64_text_char (CHR ''='')" by (simp add: b64_text_char_def)
  ultimately show ?thesis by (auto simp: b64encode_def list_all_iff)
qed

lemma char_eq_code: "(c = d) = ((of_char c :: nat) = of_char d)"
  by (simp only: of_char_eq_iff)

lemma b64_text_markup_free: "b64_text_char c \<Longrightarrow> markup_free c"
  unfolding b64_text_char_def markup_free_def ascii_alnum_def Let_def
  by (simp add: char_eq_code [of c]) arith

lemma svg_data_url_markup_free: "list_all markup_free (svg_data_url s)"
proof -
  have "list_all markup_free ''data:image/svg+xml;base64,''"
    by (simp add: markup_free_def)
  moreover have "list_all markup_free (b64encode (utf8_encode s))"
    using b64encode_text [of "utf8_encode s"] b64_text_markup_free
    by (auto simp: list_all_iff)
  ultimately show ?thesis by (simp add: svg_data_url_def)
qed

lemma sublist_in: "sublist xs ys \<Longrightarrow> sublist xs (ps @ ys @ ss)"
proof -
  assume "sublist xs ys"
  then obtain p s where "ys = p @ xs @ s" by (auto simp: sublist_def)
  then have "ps @ ys @ ss = (ps @ p) @ xs @ (s @ ss)" by simp
  then show ?thesis by (simp only: sublist_appendI)
qed

lemma page_meta_product: "sublist (''Product: '' @ pid @ [CHR '' '', CHR 0xB7, CHR '' '']) (page_meta pid ts)"
proof -
  have "page_meta pid ts = ''      <div class='meta'>'' @ (''Product: '' @ pid @ [CHR '' '', CHR 0xB7, CHR '' ''])
      @ (''Created: '' @ ts @ '' UTC</div>'' @ [NL])"
    by (simp add: page_meta_def)
  then show ?thesis by (simp only: sublist_appendI)
qed

lemma page_preview_img: "sublist (''<img src='' @ [SQ] @ url @ [SQ]) (page_preview url)"
proof -
  have "page_preview url = (''      <div class='preview'>'' @ [NL] @ ''        '')
      @ (''<img src='' @ [SQ] @ url @ [SQ])
      @ ('' alt='SVG preview' style='max-width:100%; height:auto; display:block;'>'' @ [NL]
         @ ''      </div>'' @ [NL])"
    by (simp add: page_preview_def)
  then show ?thesis by (simp only: sublist_appendI)
qed

lemma page_actions_link:
  "sublist (''href='' @ [SQ] @ url @ [SQ] @ '' download='' @ [SQ] @ fname @ [SQ]) (page_actions url fname)"
proof -
  have "page_actions url fname = (''      <div class='actions'>'' @ [NL] @ ''        <a class='btn' '')
      @ (''href='' @ [SQ] @ url @ [SQ] @ '' download='' @ [SQ] @ fname @ [SQ])
      @ (''>Download SVG</a>'' @ [NL] @ ''      </div>'' @ [NL])"
    by (simp add: page_actions_def)
  then show ?thesis by (simp only: sublist_appendI)
qed

lemma html_page_parts:
  "sublist (''Product: '' @ product_id d @ [CHR '' '', CHR 0xB7, CHR '' '']) (html_page c d)"
  "sublist (''<img src='' @ [SQ] @ svg_data_url (svg d) @ [SQ]) (html_page c d)"
  "sublist (''href='' @ [SQ] @ svg_data_url (svg d) @ [SQ] @ '' download='' @ [SQ]
             @ download_name (product_id d) c @ [SQ]) (html_page c d)"
proof -
  let ?m = "page_meta (product_id d) (strftime (created_at d))"
  let ?p = "page_preview (svg_data_url (svg d))"
  let ?a = "page_actions (svg_data_url (svg d)) (download_name (product_id d) c)"
  have 1: "html_page c d = page_head c @ ?m @ (?p @ ?a @ page_foot)"
    and 2: "html_page c d = (page_head c @ ?m) @ ?p @ (?a @ page_foot)"
    and 3: "html_page c d = (page_head c @ ?m @ ?p) @ ?a @ page_foot"
    by (simp_all add: html_page_def)
  show "sublist (''Product: '' @ product_id d @ [CHR '' '', CHR 0xB7, CHR '' '']) (html_page c d)"
    unfolding 1 by (rule sublist_in) (rule page_meta_product)
  show "sublist (''<img src='' @ [SQ] @ svg_data_url (svg d) @ [SQ]) (html_page c d)"
    unfolding 2 by (rule sublist_in) (rule page_preview_img)
  show "sublist (''href='' @ [SQ] @ svg_data_url (svg d) @ [SQ] @ '' download='' @ [SQ]
             @ download_name (product_id d) c @ [SQ]) (html_page c d)"
    unfolding 3 by (rule sublist_in) (rule page_actions_link)
qed

lemma view_design_open:
  "ADMIN_USER cfg = [] \<or> ADMIN_PASS cfg = [] \<or> require_basic_auth cfg auth \<Longrightarrow>
     query_first ds c = Some d \<Longrightarrow> view_design cfg auth c ds = page_response c d"
  by (auto simp: view_design_def page_response_def)

section \<open>Facts about the handlers\<close>

lemma get_data_obj: "get_data (Some (JObj kv)) = JObj kv"
  by (cases kv) (simp_all add: get_data_def)

lemma submitted_cases:
  "submitted req = Some (a, b, c) \<Longrightarrow>
     \<exists>kv. get_data (json_body req) = JObj kv \<and> dict_get kv ''productId'' = a \<and>
          dict_get kv ''svg'' = b \<and> dict_get kv ''state'' = c"
  by (auto simp: submitted_def split: json.splits)

lemma save_design_well_formed:
  assumes "well_formed cfg req p s stv"
  shows "save_design cfg py_str rnd now req st =
     (if length s > 1500000
      then (Inr (cors_ok cfg req (error_response 413 ''SVG too large'')), st)
      else let (c, k) = assign_code rnd (designs st) (drawn st)
           in if query_first (designs st) c \<noteq> None
              then (Inl IntegrityError, st\<lparr>drawn := k\<rparr>)
              else (Inr (ok_response cfg req c),
                    \<lparr>designs = designs st @
                       [new_design (designs st) c (py_strip p) s (state_text py_str stv) now],
                     drawn = k\<rparr>))"
proof -
  from assms obtain kv where kv: "get_data (json_body req) = JObj kv"
    "dict_get kv ''productId'' = JStr p" "dict_get kv ''svg'' = JStr s"
    "dict_get kv ''state'' = stv"
    unfolding well_formed_def using submitted_cases by blast
  from assms have m: "req_method req = POST" "origin_allowed cfg req" "py_strip p \<noteq> []" "s \<noteq> []"
    by (simp_all add: well_formed_def)
  from m(3) have p: "p \<noteq> []" by (auto simp: py_strip_def strip_by_def rstrip_by_def lstrip_by_def)
  show ?thesis
    using m p kv
    by (auto simp: save_design_def origin_allowed_def get_product_id_def get_svg_def
        commit_design_def ok_response_def Let_def split: prod.splits)
qed

lemma assign_code_cases:
  "assign_code rnd ds k =
     (if query_first ds (generate_code (rnd k)) = None then (generate_code (rnd k), k + 1)
      else if query_first ds (generate_code (rnd (k + 1))) = None
        then (generate_code (rnd (k + 1)), k + 2)
      else if query_first ds (generate_code (rnd (k + 2))) = None
        then (generate_code (rnd (k + 2)), k + 3)
      else (generate_code (rnd (k + 3)), k + 4))"
  by (simp add: assign_code_def eval_nat_numeral)

lemma status_cors_ok: "status (cors_ok cfg req r) = status r"
  by (simp add: cors_ok_def Let_def)

lemma body_cors_ok: "body (cors_ok cfg req r) = body r"
  by (simp add: cors_ok_def Let_def)

lemma generate_code_rnd_ex:
  "generate_code (rnd_ex 0) = ''AAECAwQFBg''" "generate_code (rnd_ex 1) = ''AQECAwQFBg''"
  "generate_code (rnd_ex 2) = ''AgECAwQFBg''" "generate_code (rnd_ex 3) = ''AwECAwQFBg''"
  "generate_code (rnd_ex (Suc 0)) = ''AQECAwQFBg''"
  "generate_code (rnd_ex (Suc (Suc 0))) = ''AgECAwQFBg''"
  "generate_code (rnd_ex (Suc (Suc (Suc 0)))) = ''AwECAwQFBg''"
  by code_simp+

lemma well_formed_req_ex: "well_formed cfg_open req_ex ''mug'' ''<svg/>'' JNull"
  by code_simp

lemma status_lookup_page: "status (lookup_page c ds) = 404 \<or> status (lookup_page c ds) = 200"
  by (simp add: lookup_page_def split: option.splits)

lemma save_design_status:
  "fst (save_design cfg py_str rnd now req st) = Inr r \<Longrightarrow>
     (req_method req = OPTIONS \<and> status r = 204) \<or>
     (req_method req = POST \<and> \<not> origin_allowed cfg req \<and> status r = 403) \<or>
     (req_method req = POST \<and> origin_allowed cfg req \<and> status r \<in> {400, 413, 200})"
  by (cases "req_method req")
     (auto simp: save_design_def origin_allowed_def status_cors_ok error_response_def Let_def
       split: if_splits json.splits sum.splits prod.splits)

lemma well_formed_big_req: "0 < n \<Longrightarrow> well_formed cfg_open (big_req n) ''mug'' (svg_of_length n) JNull"
  by (simp add: well_formed_def big_req_def post_ex_def origin_allowed_def cfg_open_def
      submitted_def get_data_obj dict_get_def svg_of_length_def)
    code_simp

lemma save_design_effect:
  "save_design cfg py_str rnd now req st = (out, st') \<Longrightarrow>
     (case out of
        Inl e \<Rightarrow> designs st' = designs st
      | Inr r \<Rightarrow>
          if status r = 200
          then (\<exists>d. designs st' = designs st @ [d] \<and> body r = JsonBody [(''code'', code d)] \<and>
                    query_first (designs st) (code d) = None)
          else status r \<in> {204, 400, 403, 413} \<and> st' = st)"
  by (cases "req_method req")
     (auto simp: save_design_def status_cors_ok body_cors_ok error_response_def Let_def
       commit_design_def new_design_def
       split: if_splits json.splits sum.splits prod.splits)

lemma product_id_text:
  "dict_get kv ''productId'' = JStr p \<Longrightarrow> py_strip p \<noteq> [] \<Longrightarrow> get_product_id kv = Inr (py_strip p)"
  by (cases p) (simp_all add: get_product_id_def py_strip_def strip_by_def rstrip_by_def lstrip_by_def)

lemma save_design_after_product_id:
  assumes "req_method req = POST" and "origin_allowed cfg req"
    and "submitted req = Some (JStr p, sv, stv)" and "py_strip p \<noteq> []"
  shows "save_design cfg py_str rnd now req st =
     (if \<not> truthy sv
      then (Inr (cors_ok cfg req (error_response 400 ''productId and svg are required'')), st)
      else (case py_len sv of
              Inl e \<Rightarrow> (Inl e, st)
            | Inr n \<Rightarrow>
                if n > 1500000
                then (Inr (cors_ok cfg req (error_response 413 ''SVG too large'')), st)
                else (case commit_design (designs st)
                             (fst (assign_code rnd (designs st) (drawn st))) (py_strip p) sv
                             (state_text py_str stv) now of
                        Inl e \<Rightarrow> (Inl e, st\<lparr>drawn := snd (assign_code rnd (designs st) (drawn st))\<rparr>)
                      | Inr ds \<Rightarrow>
                          (Inr (ok_response cfg req (fst (assign_code rnd (designs st) (drawn st)))),
                           \<lparr>designs = ds, drawn = snd (assign_code rnd (designs st) (drawn st))\<rparr>))))"
proof -
  from assms(3) obtain kv where kv: "get_data (json_body req) = JObj kv"
    "dict_get kv ''productId'' = JStr p" "dict_get kv ''svg'' = sv" "dict_get kv ''state'' = stv"
    using submitted_cases by blast
  have pid: "get_product_id kv = Inr (py_strip p)"
    using kv(2) assms(4) by (rule product_id_text)
  have pre: "req_method req \<noteq> OPTIONS"
    "\<not> (ALLOWED_ORIGIN cfg \<noteq> ''*'' \<and> origin_header req \<noteq> Some (ALLOWED_ORIGIN cfg))"
    using assms(1,2) by (auto simp: origin_allowed_def)
  have sv: "get_svg kv = (if truthy sv then sv else JStr [])"
    using kv(3) by (simp add: get_svg_def)
  obtain c k where ck: "assign_code rnd (designs st) (drawn st) = (c, k)"
    by (cases "assign_code rnd (designs st) (drawn st)")
  show ?thesis
    unfolding save_design_def
    by (simp only: pre kv pid sv if_False json.case sum.case Let_def)
       (simp add: assms(4) ok_response_def ck split: sum.splits)
qed


lemma post_ex_fields:
  "req_method (post_ex orig [(''productId'', JStr ''mug''), (''svg'', sv)]) = POST"
  "origin_allowed cfg_open (post_ex orig [(''productId'', JStr ''mug''), (''svg'', sv)])"
  "submitted (post_ex orig [(''productId'', JStr ''mug''), (''svg'', sv)])
     = Some (JStr ''mug'', sv, JNull)"
  by (simp_all add: post_ex_def origin_allowed_def cfg_open_def submitted_def get_data_obj
      dict_get_def)

lemma strip_mug: "py_strip ''mug'' = ''mug''"
  by code_simp

lemma query_first_append:
  "query_first ds c = None \<Longrightarrow> code d = c \<Longrightarrow> query_first (ds @ [d]) c = Some d"
  by (induction ds) (auto simp: query_first_def split: if_splits)

lemma data_url_ex: "svg_data_url ''<svg/>'' = ''data:image/svg+xml;base64,PHN2Zy8+''"
  by code_simp

lemma well_formed_req_padded: "well_formed cfg_open req_padded '' mug '' ''<svg/>'' JNull"
  by code_simp

lemma strip_padded: "py_strip '' mug '' = ''mug''"
  by code_simp

lemma max_content_length: "MAX_CONTENT_LENGTH = 2097152"
  by (simp add: MAX_CONTENT_LENGTH_def)

lemma length_svg_of_length: "length (svg_of_length n) = n"
  by (simp add: svg_of_length_def)





section \<open>Claims\<close>

text \<open>
  C1. Whatever seven bytes the random source gives, \<open>generate_code\<close> returns between
  1 and 10 characters, each of them URL-safe (in fact alphanumeric), so the code is
  never empty: the last Base64 character of seven bytes carries two data bits and four
  zero bits, which makes it one of \<open>A\<close>, \<open>Q\<close>, \<open>g\<close>, \<open>w\<close>, and it survives the removal
  of \<open>-\<close> and \<open>_\<close>.
\<close>

theorem generate_code_shape:
  "length tok = 7 \<Longrightarrow>
     1 \<le> length (generate_code tok) \<and> length (generate_code tok) \<le> 10 \<and>
     list_all url_safe (generate_code tok) \<and> list_all ascii_alnum (generate_code tok) \<and>
     generate_code tok \<noteq> []"
proof -
  assume len: "length tok = 7"
  have ne: "generate_code tok \<noteq> []" using len by (rule generate_code_nonempty)
  then have "1 \<le> length (generate_code tok)" by (cases "generate_code tok") simp_all
  moreover have "length (generate_code tok) \<le> 10" by (simp add: generate_code_def)
  moreover have "list_all url_safe (generate_code tok)"
    using generate_code_alnum [of tok] by (simp add: list_all_iff url_safe_def)
  ultimately show ?thesis using ne generate_code_alnum [of tok] by simp
qed

theorem generate_code_shape_witness:
  "length [255, 255, 255, 255, 255, 255, 255 :: byte] = 7 \<and>
   generate_code [255, 255, 255, 255, 255, 255, 255] = ''w'' \<and>
   length (generate_code [255, 255, 255, 255, 255, 255, 255]) = 1 \<and>
   list_all url_safe (generate_code [255, 255, 255, 255, 255, 255, 255])"
  using generate_code_shape [of "[255, 255, 255, 255, 255, 255, 255]"]
  by (simp add: generate_code_all_ones)

text \<open>
  C2, as stated, fails: with a table that already holds the first three candidates the
  handler draws a fourth token and stores the fourth candidate, which it never looked up.
\<close>

theorem fourth_candidate_generated:
  "drawn (snd (save_design cfg_open (\<lambda>v. []) rnd_ex now_ex req_ex st_three)) = 4 \<and>
   fst (save_design cfg_open (\<lambda>v. []) rnd_ex now_ex req_ex st_three)
     = Inr (ok_response cfg_open req_ex ''AwECAwQFBg'')"
  by (simp add: save_design_well_formed [OF well_formed_req_ex] assign_code_cases
      generate_code_rnd_ex st_three_def query_first_def row_ex_def)

text \<open>
  C2, amended. On a submission that passes validation the handler looks the current
  candidate up at most three times; each collision draws a new candidate, so between one
  and four candidates are generated, and after three collisions the fourth is handed to
  the insert without a lookup. The insert succeeds (200 with that code) when the code
  is free and raises the integrity error of the unique index otherwise.
\<close>

theorem collision_retry_bound:
  assumes "well_formed cfg req p s stv" and "length s \<le> 1500000"
  shows "let ds = designs st; k = drawn st;
             cand = (\<lambda>i. generate_code (rnd (k + i)));
             free = (\<lambda>c. query_first ds c = None);
             out = save_design cfg py_str rnd now req st;
             (c, k') = assign_code rnd ds k
         in (c, k') = (if free (cand 0) then (cand 0, k + 1)
                       else if free (cand 1) then (cand 1, k + 2)
                       else if free (cand 2) then (cand 2, k + 3)
                       else (cand 3, k + 4))
            \<and> drawn (snd out) = k' \<and> k + 1 \<le> k' \<and> k' \<le> k + 4
            \<and> fst out = (if free c then Inr (ok_response cfg req c) else Inl IntegrityError)"
  using assms(2)
  by (simp add: save_design_well_formed [OF assms(1)] assign_code_cases Let_def)

theorem collision_retry_bound_witness:
  "well_formed cfg_open req_ex ''mug'' ''<svg/>'' JNull \<and>
   assign_code rnd_ex [row_ex 1 ''AAECAwQFBg'' ''cup''] 0 = (''AQECAwQFBg'', 2) \<and>
   drawn (snd (save_design cfg_open (\<lambda>v. []) rnd_ex now_ex req_ex
            \<lparr>designs = [row_ex 1 ''AAECAwQFBg'' ''cup''], drawn = 0\<rparr>)) = 2 \<and>
   fst (save_design cfg_open (\<lambda>v. []) rnd_ex now_ex req_ex
            \<lparr>designs = [row_ex 1 ''AAECAwQFBg'' ''cup''], drawn = 0\<rparr>)
     = Inr (ok_response cfg_open req_ex ''AQECAwQFBg'')"
  using collision_retry_bound [OF well_formed_req_ex, where st = "\<lparr>designs = [row_ex 1 ''AAECAwQFBg'' ''cup''], drawn = 0\<rparr>" and rnd = rnd_ex and py_str = "\<lambda>v. []" and now = now_ex]
  by (simp add: well_formed_req_ex Let_def generate_code_rnd_ex query_first_def row_ex_def split: prod.splits if_splits)

text \<open>
  C5. With both administrator credentials configured, \<open>GET /d/code\<close> answers 401 with
  the \<open>WWW-Authenticate: Basic\<close> challenge and the fixed body unless the request
  carries exactly the configured username and password, in which case it goes on to the
  lookup; with either credential not configured the gate is open and the answer is never
  401.
\<close>

theorem basic_auth_gate:
  "(ADMIN_USER cfg \<noteq> [] \<and> ADMIN_PASS cfg \<noteq> [] \<and>
      auth \<noteq> Some \<lparr>username = Some (ADMIN_USER cfg), password = Some (ADMIN_PASS cfg)\<rparr>
      \<longrightarrow> view_design cfg auth c ds = challenge)
   \<and> (ADMIN_USER cfg \<noteq> [] \<and> ADMIN_PASS cfg \<noteq> [] \<and>
      auth = Some \<lparr>username = Some (ADMIN_USER cfg), password = Some (ADMIN_PASS cfg)\<rparr>
      \<longrightarrow> view_design cfg auth c ds = lookup_page c ds \<and> status (view_design cfg auth c ds) \<noteq> 401)
   \<and> (ADMIN_USER cfg = [] \<or> ADMIN_PASS cfg = []
      \<longrightarrow> view_design cfg auth c ds = lookup_page c ds \<and> status (view_design cfg auth c ds) \<noteq> 401)"
proof -
  have ok: "require_basic_auth cfg auth \<longleftrightarrow>
      ADMIN_USER cfg \<noteq> [] \<and> ADMIN_PASS cfg \<noteq> [] \<and>
      auth = Some \<lparr>username = Some (ADMIN_USER cfg), password = Some (ADMIN_PASS cfg)\<rparr>"
    by (cases auth) (auto simp: require_basic_auth_def)
  have st: "status (lookup_page c ds) \<noteq> 401"
    using status_lookup_page [of c ds] by auto
  have open_gate: "view_design cfg auth c ds = lookup_page c ds"
    if "ADMIN_USER cfg = [] \<or> ADMIN_PASS cfg = [] \<or> require_basic_auth cfg auth"
    using that by (auto simp: view_design_def lookup_page_def)
  have closed_gate: "view_design cfg auth c ds = challenge"
    if "ADMIN_USER cfg \<noteq> []" "ADMIN_PASS cfg \<noteq> []" "\<not> require_basic_auth cfg auth"
    using that by (simp add: view_design_def challenge_def)
  show ?thesis
    using ok st open_gate closed_gate by auto
qed

theorem basic_auth_gate_witness:
  "view_design cfg_locked None ''AAECAwQFBg'' (designs st_three) = challenge \<and>
   view_design cfg_locked (Some \<lparr>username = Some ''Admin'', password = Some ''s3cret''\<rparr>)
     ''AAECAwQFBg'' (designs st_three) = challenge \<and>
   status (view_design cfg_locked (Some \<lparr>username = Some ''admin'', password = Some ''s3cret''\<rparr>)
     ''AAECAwQFBg'' (designs st_three)) = 200 \<and>
   status (view_design cfg_open None ''AAECAwQFBg'' (designs st_three)) = 200 \<and>
   status (view_design cfg_open None ''nosuchcode'' (designs st_three)) = 404"
  using basic_auth_gate [of cfg_locked None "''AAECAwQFBg''" "designs st_three"]
    basic_auth_gate [of cfg_locked "Some \<lparr>username = Some ''Admin'', password = Some ''s3cret''\<rparr>"
      "''AAECAwQFBg''" "designs st_three"]
    basic_auth_gate [of cfg_locked "Some \<lparr>username = Some ''admin'', password = Some ''s3cret''\<rparr>"
      "''AAECAwQFBg''" "designs st_three"]
    basic_auth_gate [of cfg_open None "''AAECAwQFBg''" "designs st_three"]
    basic_auth_gate [of cfg_open None "''nosuchcode''" "designs st_three"]
  by (simp add: cfg_locked_def cfg_open_def lookup_page_def query_first_def st_three_def row_ex_def)

text \<open>
  C6. With a specific allowed origin configured, a POST whose \<open>Origin\<close> header is
  absent or different is answered 403 with the body \<open>{"error": "Origin not allowed"}\<close>
  whatever its body and the table hold, and the state is untouched; a POST whose
  \<open>Origin\<close> equals the configured value is never answered 403.
\<close>

theorem origin_check_first:
  "(req_method req = POST \<and> ALLOWED_ORIGIN cfg \<noteq> ''*'' \<and>
      origin_header req \<noteq> Some (ALLOWED_ORIGIN cfg)
      \<longrightarrow> save_design cfg py_str rnd now req st = (Inr forbidden, st))
   \<and> (req_method req = POST \<and> ALLOWED_ORIGIN cfg \<noteq> ''*'' \<and>
      origin_header req = Some (ALLOWED_ORIGIN cfg)
      \<longrightarrow> fst (save_design cfg py_str rnd now req st) \<noteq> Inr forbidden \<and>
          (\<forall>r. fst (save_design cfg py_str rnd now req st) = Inr r \<longrightarrow> status r \<noteq> 403))"
proof -
  have a: "save_design cfg py_str rnd now req st = (Inr forbidden, st)"
    if "req_method req = POST" "ALLOWED_ORIGIN cfg \<noteq> ''*''"
      "origin_header req \<noteq> Some (ALLOWED_ORIGIN cfg)"
    using that by (simp add: save_design_def forbidden_def error_response_def)
  have b: "status r \<noteq> 403"
    if "origin_header req = Some (ALLOWED_ORIGIN cfg)"
      "fst (save_design cfg py_str rnd now req st) = Inr r" for r
    using save_design_status [OF that(2)] that(1) by (auto simp: origin_allowed_def)
  have c: "fst (save_design cfg py_str rnd now req st) \<noteq> Inr forbidden"
    if "origin_header req = Some (ALLOWED_ORIGIN cfg)"
    using b [OF that, of forbidden] by (auto simp: forbidden_def)
  show ?thesis using a b c by blast
qed

theorem origin_check_first_witness:
  "save_design cfg_locked (\<lambda>v. []) rnd_ex now_ex
     (post_ex (Some ''https://evil.com'') [(''productId'', JStr ''mug''), (''svg'', JStr ''<svg/>'')])
     st_three = (Inr forbidden, st_three) \<and>
   save_design cfg_locked (\<lambda>v. []) rnd_ex now_ex (post_ex None []) st_three
     = (Inr forbidden, st_three) \<and>
   fst (save_design cfg_locked (\<lambda>v. []) rnd_ex now_ex
     (post_ex (Some ''https://example.com'') [(''productId'', JStr ''mug''), (''svg'', JStr ''<svg/>'')])
     st_three) \<noteq> Inr forbidden"
  using origin_check_first [of "post_ex (Some ''https://evil.com'') [(''productId'', JStr ''mug''), (''svg'', JStr ''<svg/>'')]"
      cfg_locked "\<lambda>v. []" rnd_ex now_ex st_three]
    origin_check_first [of "post_ex None []" cfg_locked "\<lambda>v. []" rnd_ex now_ex st_three]
    origin_check_first [of "post_ex (Some ''https://example.com'') [(''productId'', JStr ''mug''), (''svg'', JStr ''<svg/>'')]"
      cfg_locked "\<lambda>v. []" rnd_ex now_ex st_three]
  by (simp add: post_ex_def cfg_locked_def)

text \<open>
  C8, as stated, fails on its first half: a well-formed submission whose \<open>svg\<close> has
  exactly 1,500,000 characters passes the size check but does not succeed when the table
  already holds all four candidate codes, since the insert then raises the integrity
  error and nothing is stored; nor does it succeed when its body is longer than the
  request limit of line 33, since reading the body raises before the size check.
\<close>

theorem boundary_submission_fails:
  "well_formed cfg_open (big_req 1500000) ''mug'' (svg_of_length 1500000) JNull \<and>
   length (svg_of_length 1500000) = 1500000 \<and>
   save_design cfg_open (\<lambda>v. []) rnd_ex now_ex (big_req 1500000) st_four
     = (Inl IntegrityError, st_four\<lparr>drawn := 4\<rparr>) \<and>
   designs (st_four\<lparr>drawn := 4\<rparr>) = designs st_four \<and>
   save_design_limited cfg_open (\<lambda>v. []) rnd_ex now_ex 9000100 (big_req 1500000) st_empty
     = (Inl RequestEntityTooLarge, st_empty)"
proof -
  have wf: "well_formed cfg_open (big_req 1500000) ''mug'' (svg_of_length 1500000) JNull"
    by (rule well_formed_big_req) simp
  have len: "length (svg_of_length 1500000) = 1500000"
    by (simp add: svg_of_length_def)
  have a: "save_design cfg_open (\<lambda>v. []) rnd_ex now_ex (big_req 1500000) st_four
     = (Inl IntegrityError, st_four\<lparr>drawn := 4\<rparr>)"
    by (simp add: save_design_well_formed [OF wf] len assign_code_cases generate_code_rnd_ex
        st_four_def query_first_def row_ex_def)
  have b: "save_design_limited cfg_open (\<lambda>v. []) rnd_ex now_ex 9000100 (big_req 1500000) st_empty
     = (Inl RequestEntityTooLarge, st_empty)"
    using wf by (simp add: save_design_limited_def well_formed_def max_content_length)
  show ?thesis using wf len a b by simp
qed

text \<open>
  C8, amended. For a well-formed submission whose body is within the request limit of
  2 MiB, the size check is strict at 1,500,000 characters. With an \<open>svg\<close> of exactly
  1,500,000 characters the handler never answers 413; when the code assigned to the
  submission is not in the table it answers 200 with that code and appends the one row
  holding the submitted \<open>svg\<close>, and when that code is taken the insert raises the
  integrity error and the table is unchanged. With exactly 1,500,001 characters it
  answers 413 with the body \<open>{"error": "SVG too large"}\<close> and changes nothing. A body
  beyond the limit is refused when it is read, whatever the \<open>svg\<close>.
\<close>

theorem svg_size_boundary:
  assumes "well_formed cfg req p s stv"
  shows "let c = fst (assign_code rnd (designs st) (drawn st));
             k = snd (assign_code rnd (designs st) (drawn st));
             d = new_design (designs st) c (py_strip p) s (state_text py_str stv) now;
             out = save_design_limited cfg py_str rnd now n req st
         in (MAX_CONTENT_LENGTH < n \<longrightarrow> out = (Inl RequestEntityTooLarge, st)) \<and>
            (n \<le> MAX_CONTENT_LENGTH \<longrightarrow>
               out = save_design cfg py_str rnd now req st \<and>
               (length s = 1500000 \<longrightarrow>
                  (\<forall>r. fst out = Inr r \<longrightarrow> status r \<noteq> 413) \<and>
                  (query_first (designs st) c = None \<longrightarrow>
                     out = (Inr (ok_response cfg req c), \<lparr>designs = designs st @ [d], drawn = k\<rparr>) \<and>
                     status (ok_response cfg req c) = 200 \<and> svg d = s) \<and>
                  (query_first (designs st) c \<noteq> None \<longrightarrow>
                     out = (Inl IntegrityError, st\<lparr>drawn := k\<rparr>))) \<and>
               (length s = 1500001 \<longrightarrow>
                  out = (Inr (too_large cfg req), st) \<and> status (too_large cfg req) = 413) \<and>
               (fst out = Inr (too_large cfg req) \<longleftrightarrow> 1500000 < length s))"
proof -
  define c where "c = fst (assign_code rnd (designs st) (drawn st))"
  define k where "k = snd (assign_code rnd (designs st) (drawn st))"
  define d where "d = new_design (designs st) c (py_strip p) s (state_text py_str stv) now"
  let ?sd = "save_design cfg py_str rnd now req st"
  let ?out = "save_design_limited cfg py_str rnd now n req st"
  have ck: "assign_code rnd (designs st) (drawn st) = (c, k)" by (simp add: c_def k_def)
  from assms have pre: "req_method req = POST" "origin_allowed cfg req"
    by (simp_all add: well_formed_def)
  have over: "?out = (Inl RequestEntityTooLarge, st)" if "MAX_CONTENT_LENGTH < n"
    using that pre by (simp add: save_design_limited_def)
  have within: "?out = ?sd" if "n \<le> MAX_CONTENT_LENGTH"
    using that by (simp add: save_design_limited_def)
  have big: "?sd = (Inr (too_large cfg req), st)" if "1500000 < length s"
    using that by (simp add: save_design_well_formed [OF assms] too_large_def error_response_def)
  have small: "?sd =
      (if query_first (designs st) c \<noteq> None then (Inl IntegrityError, st\<lparr>drawn := k\<rparr>)
       else (Inr (ok_response cfg req c), \<lparr>designs = designs st @ [d], drawn = k\<rparr>))"
    if "length s \<le> 1500000"
    using that by (simp add: save_design_well_formed [OF assms] ck d_def)
  have s200: "status (ok_response cfg req c) = 200"
    by (simp add: ok_response_def status_cors_ok)
  have s413: "status (too_large cfg req) = 413"
    by (simp add: too_large_def status_cors_ok)
  have svg_d: "svg d = s" by (simp add: d_def new_design_def)
  have not413: "status r \<noteq> 413" if "length s \<le> 1500000" "fst ?sd = Inr r" for r
    using small [OF that(1)] that(2) s200 by (auto split: if_splits)
  have iff: "fst ?sd = Inr (too_large cfg req) \<longleftrightarrow> 1500000 < length s"
  proof
    assume "fst ?sd = Inr (too_large cfg req)"
    then show "1500000 < length s" using not413 [of "too_large cfg req"] s413 by force
  next
    assume "1500000 < length s"
    then show "fst ?sd = Inr (too_large cfg req)" using big by simp
  qed
  have at_limit: "(\<forall>r. fst ?sd = Inr r \<longrightarrow> status r \<noteq> 413) \<and>
      (query_first (designs st) c = None \<longrightarrow>
         ?sd = (Inr (ok_response cfg req c), \<lparr>designs = designs st @ [d], drawn = k\<rparr>) \<and>
         status (ok_response cfg req c) = 200 \<and> svg d = s) \<and>
      (query_first (designs st) c \<noteq> None \<longrightarrow> ?sd = (Inl IntegrityError, st\<lparr>drawn := k\<rparr>))"
    if "length s = 1500000"
    using that small not413 s200 svg_d by simp
  have above: "?sd = (Inr (too_large cfg req), st) \<and> status (too_large cfg req) = 413"
    if "length s = 1500001"
    using that big s413 by simp
  have "(MAX_CONTENT_LENGTH < n \<longrightarrow> ?out = (Inl RequestEntityTooLarge, st)) \<and>
      (n \<le> MAX_CONTENT_LENGTH \<longrightarrow>
         ?out = ?sd \<and>
         (length s = 1500000 \<longrightarrow>
            (\<forall>r. fst ?out = Inr r \<longrightarrow> status r \<noteq> 413) \<and>
            (query_first (designs st) c = None \<longrightarrow>
               ?out = (Inr (ok_response cfg req c), \<lparr>designs = designs st @ [d], drawn = k\<rparr>) \<and>
               status (ok_response cfg req c) = 200 \<and> svg d = s) \<and>
            (query_first (designs st) c \<noteq> None \<longrightarrow> ?out = (Inl IntegrityError, st\<lparr>drawn := k\<rparr>))) \<and>
         (length s = 1500001 \<longrightarrow>
            ?out = (Inr (too_large cfg req), st) \<and> status (too_large cfg req) = 413) \<and>
         (fst ?out = Inr (too_large cfg req) \<longleftrightarrow> 1500000 < length s))"
  proof (intro conjI impI)
    assume "MAX_CONTENT_LENGTH < n"
    then show "?out = (Inl RequestEntityTooLarge, st)" by (rule over)
  next
    assume n: "n \<le> MAX_CONTENT_LENGTH"
    show "?out = ?sd" using n by (rule within)
    show "fst ?out = Inr (too_large cfg req) \<longleftrightarrow> 1500000 < length s"
      using iff unfolding within [OF n] by blast
    {
      assume l: "length s = 1500000"
      show "\<forall>r. fst ?out = Inr r \<longrightarrow> status r \<noteq> 413"
        using at_limit [OF l] unfolding within [OF n] by blast
      {
        assume f: "query_first (designs st) c = None"
        show "?out = (Inr (ok_response cfg req c), \<lparr>designs = designs st @ [d], drawn = k\<rparr>)"
          using at_limit [OF l] f unfolding within [OF n] by blast
        show "status (ok_response cfg req c) = 200" by (rule s200)
        show "svg d = s" by (rule svg_d)
      }
      {
        assume f: "query_first (designs st) c \<noteq> None"
        show "?out = (Inl IntegrityError, st\<lparr>drawn := k\<rparr>)"
          using at_limit [OF l] f unfolding within [OF n] by blast
      }
    }
    {
      assume l: "length s = 1500001"
      show "?out = (Inr (too_large cfg req), st)"
        using above [OF l] unfolding within [OF n] by blast
      show "status (too_large cfg req) = 413" by (rule s413)
    }
  qed
  then show ?thesis
    unfolding Let_def c_def [symmetric] k_def [symmetric] d_def [symmetric] .
qed

theorem svg_size_boundary_witness:
  "2000000 \<le> MAX_CONTENT_LENGTH \<and> length (svg_of_length 1500000) = 1500000 \<and>
   save_design_limited cfg_open (\<lambda>v. []) rnd_ex now_ex 2000000 (big_req 1500000) st_empty
     = (Inr (ok_response cfg_open (big_req 1500000) ''AAECAwQFBg''),
        \<lparr>designs = [new_design [] ''AAECAwQFBg'' ''mug'' (svg_of_length 1500000) None now_ex],
         drawn = 1\<rparr>) \<and>
   status (ok_response cfg_open (big_req 1500000) ''AAECAwQFBg'') = 200 \<and>
   length (svg_of_length 1500001) = 1500001 \<and>
   save_design_limited cfg_open (\<lambda>v. []) rnd_ex now_ex 2000000 (big_req 1500001) st_empty
     = (Inr (too_large cfg_open (big_req 1500001)), st_empty) \<and>
   status (too_large cfg_open (big_req 1500001)) = 413"
proof -
  have ck: "fst (assign_code rnd_ex [] 0) = ''AAECAwQFBg''"
    "snd (assign_code rnd_ex [] 0) = 1"
    "query_first [] ''AAECAwQFBg'' = None"
    by (simp_all add: assign_code_cases generate_code_rnd_ex query_first_def)
  have e: "designs st_empty = []" "drawn st_empty = 0" "state_text (\<lambda>v. []) JNull = None"
    by (simp_all add: st_empty_def state_text_def)
  show ?thesis
    using svg_size_boundary [OF well_formed_big_req [of 1500000], where st = st_empty and rnd = rnd_ex
        and py_str = "\<lambda>v. []" and now = now_ex and n = 2000000]
      svg_size_boundary [OF well_formed_big_req [of 1500001], where st = st_empty and rnd = rnd_ex
        and py_str = "\<lambda>v. []" and now = now_ex and n = 2000000]
    by (auto simp: Let_def ck e strip_mug length_svg_of_length max_content_length)
qed

text \<open>
  C9. Whatever the request, an answer other than 200 (the preflight's 204, and the 403,
  400 and 413 of failed validation) leaves the state as it was, an exception leaves the
  table as it was, and an answer of 200 appends exactly one row, whose code is the one in
  the response and was not in the table before.
\<close>

theorem store_effect:
  "case save_design cfg py_str rnd now req st of
     (Inl e, st') \<Rightarrow> designs st' = designs st
   | (Inr r, st') \<Rightarrow>
       if status r = 200
       then (\<exists>d. designs st' = designs st @ [d] \<and> body r = JsonBody [(''code'', code d)] \<and>
                 query_first (designs st) (code d) = None) \<and>
            length (designs st') = length (designs st) + 1
       else status r \<in> {204, 400, 403, 413} \<and> st' = st"
proof (cases "save_design cfg py_str rnd now req st")
  case (Pair out st')
  then show ?thesis
    using save_design_effect [OF Pair] by (cases out) (auto split: if_splits)
qed

theorem store_effect_witness:
  "save_design cfg_open (\<lambda>v. []) rnd_ex now_ex req_ex st_three
     = (Inr (ok_response cfg_open req_ex ''AwECAwQFBg''),
        \<lparr>designs = designs st_three @
           [new_design (designs st_three) ''AwECAwQFBg'' ''mug'' ''<svg/>'' None now_ex],
         drawn = 4\<rparr>) \<and>
   status (ok_response cfg_open req_ex ''AwECAwQFBg'') = 200 \<and>
   length (designs st_three @
           [new_design (designs st_three) ''AwECAwQFBg'' ''mug'' ''<svg/>'' None now_ex])
     = length (designs st_three) + 1 \<and>
   save_design cfg_open (\<lambda>v. []) rnd_ex now_ex (post_ex None [(''svg'', JStr ''<svg/>'')]) st_three
     = (Inr (cors_ok cfg_open (post_ex None [(''svg'', JStr ''<svg/>'')])
               (error_response 400 ''productId and svg are required'')), st_three)"
proof -
  have saved: "save_design cfg_open (\<lambda>v. []) rnd_ex now_ex req_ex st_three
     = (Inr (ok_response cfg_open req_ex ''AwECAwQFBg''),
        \<lparr>designs = designs st_three @
           [new_design (designs st_three) ''AwECAwQFBg'' ''mug'' ''<svg/>'' None now_ex],
         drawn = 4\<rparr>)"
    by (simp add: save_design_well_formed [OF well_formed_req_ex] assign_code_cases
      generate_code_rnd_ex st_three_def query_first_def row_ex_def state_text_def)
      code_simp
  have ok: "status (ok_response cfg_open req_ex ''AwECAwQFBg'') = 200"
    by (simp add: ok_response_def status_cors_ok)
  have rejected: "save_design cfg_open (\<lambda>v. []) rnd_ex now_ex
       (post_ex None [(''svg'', JStr ''<svg/>'')]) st_three
     = (Inr (cors_ok cfg_open (post_ex None [(''svg'', JStr ''<svg/>'')])
               (error_response 400 ''productId and svg are required'')), st_three)"
    by code_simp
  show ?thesis
    using store_effect [where cfg = cfg_open and py_str = "\<lambda>v. []" and rnd = rnd_ex
        and now = now_ex and req = req_ex and st = st_three]
      saved ok rejected
    by simp
qed

text \<open>
  C10, as stated, fails twice. A body whose \<open>svg\<close> is the number 5 and that has no
  \<open>productId\<close> is answered 400, a validation response, before \<open>len\<close> is reached.
  And a list has a length: with a valid \<open>productId\<close> the size check passes for the
  list \<open>[1, 2]\<close> and the failure comes later, from the insert, not as a type error of
  \<open>len\<close>.
\<close>

theorem svg_number_without_product_id:
  "save_design cfg_open (\<lambda>v. []) rnd_ex now_ex (post_ex None [(''svg'', JInt 5)]) st_empty
     = (Inr (required_fields cfg_open (post_ex None [(''svg'', JInt 5)])), st_empty) \<and>
   status (required_fields cfg_open (post_ex None [(''svg'', JInt 5)])) = 400 \<and>
   py_len (JList [JInt 1, JInt 2]) = Inr 2 \<and>
   fst (save_design cfg_open (\<lambda>v. []) rnd_ex now_ex
     (post_ex None [(''productId'', JStr ''mug''), (''svg'', JList [JInt 1, JInt 2])]) st_empty)
     \<noteq> Inl TypeError"
proof -
  have a: "save_design cfg_open (\<lambda>v. []) rnd_ex now_ex (post_ex None [(''svg'', JInt 5)]) st_empty
     = (Inr (required_fields cfg_open (post_ex None [(''svg'', JInt 5)])), st_empty)"
    by (simp add: save_design_def post_ex_def cfg_open_def get_data_obj get_product_id_def
        dict_get_def py_strip_def strip_by_def rstrip_by_def lstrip_by_def required_fields_def
        error_response_def)
  have b: "status (required_fields cfg_open (post_ex None [(''svg'', JInt 5)])) = 400"
    by (simp add: required_fields_def status_cors_ok)
  have c: "fst (save_design cfg_open (\<lambda>v. []) rnd_ex now_ex
     (post_ex None [(''productId'', JStr ''mug''), (''svg'', JList [JInt 1, JInt 2])]) st_empty)
     = Inl DBAPIError"
    by (simp add: save_design_after_product_id [OF post_ex_fields] strip_mug commit_design_def)
  show ?thesis using a b c by simp
qed

text \<open>
  C10, amended. On a POST from an allowed origin whose \<open>productId\<close> is text that is
  not blank: if \<open>svg\<close> is \<open>true\<close> or a number other than zero, \<open>len\<close> raises the
  type error, which nothing handles, and the state is unchanged; if \<open>svg\<close> is a list
  or an object that is not empty, \<open>len\<close> is its number of elements, no type error is
  raised, the answer is 413 above 1,500,000 elements and the insert's error below, and
  the table is unchanged.
\<close>

theorem non_text_svg:
  assumes "req_method req = POST" and "origin_allowed cfg req"
    and "submitted req = Some (JStr p, sv, stv)" and "py_strip p \<noteq> []"
  shows "(sv = JBool True \<or> (\<exists>n. n \<noteq> 0 \<and> sv = JInt n)
            \<longrightarrow> save_design cfg py_str rnd now req st = (Inl TypeError, st))
       \<and> ((\<exists>xs. xs \<noteq> [] \<and> sv = JList xs) \<or> (\<exists>kv. kv \<noteq> [] \<and> sv = JObj kv)
            \<longrightarrow> fst (save_design cfg py_str rnd now req st) \<noteq> Inl TypeError \<and>
                (\<exists>n. py_len sv = Inr n \<and>
                   fst (save_design cfg py_str rnd now req st)
                     = (if 1500000 < n then Inr (too_large cfg req) else Inl DBAPIError)) \<and>
                designs (snd (save_design cfg py_str rnd now req st)) = designs st)"
proof -
  let ?out = "save_design cfg py_str rnd now req st"
  note eq = save_design_after_product_id [OF assms, of py_str rnd now st]
  have a1: "?out = (Inl TypeError, st)" if "sv = JBool True"
    unfolding eq by (simp add: that)
  have a2: "?out = (Inl TypeError, st)" if "sv = JInt n" "n \<noteq> 0" for n
    unfolding eq by (simp add: that)
  have b1: "fst ?out = (if 1500000 < length xs then Inr (too_large cfg req) else Inl DBAPIError)
      \<and> designs (snd ?out) = designs st \<and> py_len sv = Inr (length xs)"
    if "sv = JList xs" "xs \<noteq> []" for xs
    unfolding eq by (simp add: that commit_design_def too_large_def error_response_def)
  have b2: "fst ?out = (if 1500000 < length (remdups (map fst kv)) then Inr (too_large cfg req)
        else Inl DBAPIError)
      \<and> designs (snd ?out) = designs st \<and> py_len sv = Inr (length (remdups (map fst kv)))"
    if "sv = JObj kv" "kv \<noteq> []" for kv
    unfolding eq by (simp add: that commit_design_def too_large_def error_response_def)
  have a: "?out = (Inl TypeError, st)" if "sv = JBool True \<or> (\<exists>n. n \<noteq> 0 \<and> sv = JInt n)"
    using that a1 a2 by blast
  have b: "fst ?out \<noteq> Inl TypeError \<and>
      (\<exists>n. py_len sv = Inr n \<and>
         fst ?out = (if 1500000 < n then Inr (too_large cfg req) else Inl DBAPIError)) \<and>
      designs (snd ?out) = designs st"
    if h: "(\<exists>xs. xs \<noteq> [] \<and> sv = JList xs) \<or> (\<exists>kv. kv \<noteq> [] \<and> sv = JObj kv)"
  proof -
    from h obtain n where n: "py_len sv = Inr n"
      "fst ?out = (if 1500000 < n then Inr (too_large cfg req) else Inl DBAPIError)"
      "designs (snd ?out) = designs st"
      using b1 b2 by blast
    from n(2) have "fst ?out \<noteq> Inl TypeError" by (simp split: if_splits)
    with n show ?thesis by blast
  qed
  show ?thesis using a b by blast
qed

theorem non_text_svg_witness:
  "save_design cfg_open (\<lambda>v. []) rnd_ex now_ex
     (post_ex None [(''productId'', JStr ''mug''), (''svg'', JInt 5)]) st_empty
     = (Inl TypeError, st_empty) \<and>
   save_design cfg_open (\<lambda>v. []) rnd_ex now_ex
     (post_ex None [(''productId'', JStr ''mug''), (''svg'', JBool True)]) st_empty
     = (Inl TypeError, st_empty) \<and>
   fst (save_design cfg_open (\<lambda>v. []) rnd_ex now_ex
     (post_ex None [(''productId'', JStr ''mug''), (''svg'', JList [JInt 1, JInt 2])]) st_empty)
     = Inl DBAPIError \<and>
   designs (snd (save_design cfg_open (\<lambda>v. []) rnd_ex now_ex
     (post_ex None [(''productId'', JStr ''mug''), (''svg'', JList [JInt 1, JInt 2])]) st_empty))
     = designs st_empty"
proof -
  have mug: "py_strip ''mug'' \<noteq> []" by (simp add: strip_mug)
  show ?thesis
    using non_text_svg [OF post_ex_fields [of None "JInt 5"] mug, where py_str = "\<lambda>v. []" and rnd = rnd_ex and now = now_ex and st = st_empty]
      non_text_svg [OF post_ex_fields [of None "JBool True"] mug, where py_str = "\<lambda>v. []" and rnd = rnd_ex and now = now_ex and st = st_empty]
      non_text_svg [OF post_ex_fields [of None "JList [JInt 1, JInt 2]"] mug, where py_str = "\<lambda>v. []" and rnd = rnd_ex and now = now_ex and st = st_empty]
    by simp
qed

text \<open>
  C3, as stated, fails on its first half: the product reference goes into the page as it
  is stored. A stored reference \<open><b>Mug</b> & co\<close> appears in the document with its
  \<open><\<close>, \<open>>\<close> and \<open>&\<close>, and the line that shows it does not hold the escaped text.
\<close>

theorem product_reference_not_escaped:
  "view_design cfg_open None ''AAECAwQFBg'' [row_markup] = page_response ''AAECAwQFBg'' row_markup \<and>
   html_escape (product_id row_markup) = ''&lt;b&gt;Mug&lt;/b&gt; &amp; co'' \<and>
   sublist (''Product: <b>Mug</b> & co'' @ [CHR '' '', CHR 0xB7, CHR '' ''])
     (html_page ''AAECAwQFBg'' row_markup) \<and>
   \<not> sublist (html_escape (product_id row_markup))
     (page_meta (product_id row_markup) (strftime (created_at row_markup)))"
proof -
  have pid: "product_id row_markup = ''<b>Mug</b> & co''"
    by (simp add: row_markup_def row_ex_def)
  have a: "view_design cfg_open None ''AAECAwQFBg'' [row_markup] = page_response ''AAECAwQFBg'' row_markup"
    by (rule view_design_open) (simp_all add: cfg_open_def query_first_def row_markup_def row_ex_def)
  have b: "html_escape (product_id row_markup) = ''&lt;b&gt;Mug&lt;/b&gt; &amp; co''"
    by (simp add: pid html_escape_def html_escape_char_def)
  have c: "sublist (''Product: <b>Mug</b> & co'' @ [CHR '' '', CHR 0xB7, CHR '' ''])
     (html_page ''AAECAwQFBg'' row_markup)"
    using html_page_parts(1) [of row_markup "''AAECAwQFBg''"] by (simp only: pid append_Cons append_Nil)
  have d: "\<not> sublist (html_escape (product_id row_markup))
     (page_meta (product_id row_markup) (strftime (created_at row_markup)))"
    by code_simp
  show ?thesis using a b c d by simp
qed

text \<open>
  C3, amended. For every stored design that the gate lets through, the page is the fixed
  template filled with the code, the product reference as stored (not escaped), the
  timestamp, the data URI and the file name. The SVG text enters only through the data
  URI, which is the fixed prefix followed by the Base64 text of the UTF-8 bytes, so it
  holds none of \<open><\<close>, \<open>>\<close>, \<open>&\<close> or a quote; the data URI is the \<open>src\<close> of the
  image element and the \<open>href\<close> of the download link.
\<close>

theorem page_embedding:
  assumes "ADMIN_USER cfg = [] \<or> ADMIN_PASS cfg = [] \<or> require_basic_auth cfg auth"
    and "query_first ds c = Some d"
  shows "view_design cfg auth c ds = page_response c d \<and>
     html_page c d =
       page_head c @ page_meta (product_id d) (strftime (created_at d))
       @ page_preview (svg_data_url (svg d))
       @ page_actions (svg_data_url (svg d)) (download_name (product_id d) c) @ page_foot \<and>
     sublist (''Product: '' @ product_id d @ [CHR '' '', CHR 0xB7, CHR '' '']) (html_page c d) \<and>
     sublist (''<img src='' @ [SQ] @ svg_data_url (svg d) @ [SQ]) (html_page c d) \<and>
     sublist (''href='' @ [SQ] @ svg_data_url (svg d) @ [SQ] @ '' download='' @ [SQ]
               @ download_name (product_id d) c @ [SQ]) (html_page c d) \<and>
     svg_data_url (svg d) = ''data:image/svg+xml;base64,'' @ b64encode (utf8_encode (svg d)) \<and>
     list_all b64_text_char (b64encode (utf8_encode (svg d))) \<and>
     list_all markup_free (svg_data_url (svg d))"
  using view_design_open [OF assms] html_page_parts [of d c] b64encode_text [of "utf8_encode (svg d)"]
    svg_data_url_markup_free [of "svg d"]
  by (simp add: html_page_def svg_data_url_def)

theorem page_embedding_witness:
  "view_design cfg_open None ''AAECAwQFBg'' [row_markup] = page_response ''AAECAwQFBg'' row_markup \<and>
   sublist (''Product: <b>Mug</b> & co'' @ [CHR '' '', CHR 0xB7, CHR '' ''])
     (html_page ''AAECAwQFBg'' row_markup) \<and>
   sublist (''<img src='data:image/svg+xml;base64,PHN2Zy8+'' @ [SQ]) (html_page ''AAECAwQFBg'' row_markup) \<and>
   list_all markup_free ''data:image/svg+xml;base64,PHN2Zy8+''"
proof -
  have g: "ADMIN_USER cfg_open = [] \<or> ADMIN_PASS cfg_open = [] \<or> require_basic_auth cfg_open None"
    by (simp add: cfg_open_def)
  have q: "query_first [row_markup] ''AAECAwQFBg'' = Some row_markup"
    by (simp add: query_first_def row_markup_def row_ex_def)
  have f: "product_id row_markup = ''<b>Mug</b> & co''" "svg row_markup = ''<svg/>''"
    by (simp_all add: row_markup_def row_ex_def)
  from page_embedding [OF g q]
  have 1: "view_design cfg_open None ''AAECAwQFBg'' [row_markup] = page_response ''AAECAwQFBg'' row_markup"
    and 2: "sublist (''Product: '' @ product_id row_markup @ [CHR '' '', CHR 0xB7, CHR '' ''])
       (html_page ''AAECAwQFBg'' row_markup)"
    and 3: "sublist (''<img src='' @ [SQ] @ svg_data_url (svg row_markup) @ [SQ])
       (html_page ''AAECAwQFBg'' row_markup)"
    and 4: "list_all markup_free (svg_data_url (svg row_markup))"
    by blast+
  show ?thesis
    using 1 2 3 4 by (simp only: f data_url_ex append_Cons append_Nil simp_thms)
qed




text \<open>
  C7, as stated, fails for a \<open>productId\<close> with surrounding whitespace: the handler
  stores and the page shows the trimmed text.
\<close>

theorem surrounding_whitespace_trimmed:
  "save_design cfg_open (\<lambda>v. []) rnd_ex now_ex req_padded st_empty
     = (Inr (ok_response cfg_open req_padded ''AAECAwQFBg''), \<lparr>designs = [row_mug], drawn = 1\<rparr>) \<and>
   view_design cfg_open None ''AAECAwQFBg'' [row_mug] = page_response ''AAECAwQFBg'' row_mug \<and>
   product_id row_mug = ''mug'' \<and> ''mug'' \<noteq> '' mug '' \<and>
   sublist (''Product: mug'' @ [CHR '' '', CHR 0xB7, CHR '' '']) (html_page ''AAECAwQFBg'' row_mug)"
proof -
  have a: "save_design cfg_open (\<lambda>v. []) rnd_ex now_ex req_padded st_empty
     = (Inr (ok_response cfg_open req_padded ''AAECAwQFBg''), \<lparr>designs = [row_mug], drawn = 1\<rparr>)"
    by (simp add: save_design_well_formed [OF well_formed_req_padded] assign_code_cases
        generate_code_rnd_ex st_empty_def query_first_def row_mug_def strip_padded state_text_def)
  have p: "product_id row_mug = ''mug''" by (simp add: row_mug_def new_design_def)
  have b: "view_design cfg_open None ''AAECAwQFBg'' [row_mug] = page_response ''AAECAwQFBg'' row_mug"
    by (rule view_design_open) (simp_all add: cfg_open_def query_first_def row_mug_def new_design_def)
  have c: "sublist (''Product: mug'' @ [CHR '' '', CHR 0xB7, CHR '' '']) (html_page ''AAECAwQFBg'' row_mug)"
    using html_page_parts(1) [of row_mug "''AAECAwQFBg''"] by (simp only: p append_Cons append_Nil)
  show ?thesis using a b c p by simp
qed

text \<open>
  C7, amended. For a well-formed submission within the size limit that is answered, the
  answer is 200 with the assigned code, the table gains the row of that code, and
  retrieval by that code (through an open gate) renders the page of that row: the product
  reference shown is the submitted \<open>productId\<close> with surrounding whitespace trimmed,
  and the Base64 text of the data URI decodes to the UTF-8 bytes of the submitted
  \<open>svg\<close>, which decode to the submitted text.
\<close>

theorem round_trip:
  assumes wf: "well_formed cfg req p s stv" and len: "length s \<le> 1500000"
    and saved: "fst (save_design cfg py_str rnd now req st) = Inr r"
    and gate: "ADMIN_USER cfg = [] \<or> ADMIN_PASS cfg = [] \<or> require_basic_auth cfg auth"
  shows "let c = fst (assign_code rnd (designs st) (drawn st));
             d = new_design (designs st) c (py_strip p) s (state_text py_str stv) now;
             ds = designs (snd (save_design cfg py_str rnd now req st))
         in r = ok_response cfg req c \<and> status r = 200 \<and> body r = JsonBody [(''code'', c)] \<and>
            ds = designs st @ [d] \<and> query_first ds c = Some d \<and>
            view_design cfg auth c ds = page_response c d \<and>
            product_id d = py_strip p \<and> svg d = s \<and>
            sublist (''Product: '' @ py_strip p @ [CHR '' '', CHR 0xB7, CHR '' '']) (html_page c d) \<and>
            sublist (''<img src='' @ [SQ] @ ''data:image/svg+xml;base64,''
                       @ b64encode (utf8_encode s) @ [SQ]) (html_page c d) \<and>
            b64decode (b64encode (utf8_encode s)) = Some (utf8_encode s) \<and>
            utf8_decode (utf8_encode s) = Some s"
proof -
  define c where "c = fst (assign_code rnd (designs st) (drawn st))"
  define k where "k = snd (assign_code rnd (designs st) (drawn st))"
  define d where "d = new_design (designs st) c (py_strip p) s (state_text py_str stv) now"
  have ck: "assign_code rnd (designs st) (drawn st) = (c, k)" by (simp add: c_def k_def)
  have eq: "save_design cfg py_str rnd now req st =
      (if query_first (designs st) c \<noteq> None then (Inl IntegrityError, st\<lparr>drawn := k\<rparr>)
       else (Inr (ok_response cfg req c), \<lparr>designs = designs st @ [d], drawn = k\<rparr>))"
    using len by (simp add: save_design_well_formed [OF wf] ck d_def)
  from saved eq have free: "query_first (designs st) c = None"
    by (cases "query_first (designs st) c") auto
  with eq have out: "save_design cfg py_str rnd now req st =
      (Inr (ok_response cfg req c), \<lparr>designs = designs st @ [d], drawn = k\<rparr>)"
    by simp
  have r: "r = ok_response cfg req c" using saved out by simp
  have fields: "code d = c" "product_id d = py_strip p" "svg d = s"
    by (simp_all add: d_def new_design_def)
  have found: "query_first (designs st @ [d]) c = Some d"
    using free fields(1) by (rule query_first_append)
  have view: "view_design cfg auth c (designs st @ [d]) = page_response c d"
    using gate found by (rule view_design_open)
  have parts: "sublist (''Product: '' @ py_strip p @ [CHR '' '', CHR 0xB7, CHR '' '']) (html_page c d)"
    "sublist (''<img src='' @ [SQ] @ ''data:image/svg+xml;base64,''
               @ b64encode (utf8_encode s) @ [SQ]) (html_page c d)"
    using html_page_parts(1,2) [of d c] by (simp_all add: fields svg_data_url_def)
  have "r = ok_response cfg req c \<and> status r = 200 \<and> body r = JsonBody [(''code'', c)] \<and>
      designs (snd (save_design cfg py_str rnd now req st)) = designs st @ [d] \<and>
      query_first (designs st @ [d]) c = Some d \<and>
      view_design cfg auth c (designs st @ [d]) = page_response c d \<and>
      product_id d = py_strip p \<and> svg d = s"
    using r out found view fields
    by (simp add: ok_response_def status_cors_ok body_cors_ok)
  then show ?thesis
    unfolding Let_def c_def [symmetric] d_def [symmetric]
    using parts b64_roundtrip [of "utf8_encode s"] utf8_roundtrip [of s]
    by (simp add: ok_response_def status_cors_ok body_cors_ok)
qed

theorem round_trip_witness:
  "fst (save_design cfg_open (\<lambda>v. []) rnd_ex now_ex req_padded st_empty)
     = Inr (ok_response cfg_open req_padded ''AAECAwQFBg'') \<and>
   designs (snd (save_design cfg_open (\<lambda>v. []) rnd_ex now_ex req_padded st_empty)) = [row_mug] \<and>
   view_design cfg_open None ''AAECAwQFBg'' [row_mug] = page_response ''AAECAwQFBg'' row_mug \<and>
   product_id row_mug = py_strip '' mug '' \<and> svg row_mug = ''<svg/>'' \<and>
   b64decode (b64encode (utf8_encode ''<svg/>'')) = Some (utf8_encode ''<svg/>'') \<and>
   utf8_decode (utf8_encode ''<svg/>'') = Some ''<svg/>''"
proof -
  have a: "save_design cfg_open (\<lambda>v. []) rnd_ex now_ex req_padded st_empty
     = (Inr (ok_response cfg_open req_padded ''AAECAwQFBg''), \<lparr>designs = [row_mug], drawn = 1\<rparr>)"
    by (simp add: save_design_well_formed [OF well_formed_req_padded] assign_code_cases
        generate_code_rnd_ex st_empty_def query_first_def row_mug_def strip_padded state_text_def)
  have s: "fst (save_design cfg_open (\<lambda>v. []) rnd_ex now_ex req_padded st_empty)
     = Inr (ok_response cfg_open req_padded ''AAECAwQFBg'')"
    by (simp add: a)
  have g: "ADMIN_USER cfg_open = [] \<or> ADMIN_PASS cfg_open = [] \<or> require_basic_auth cfg_open None"
    by (simp add: cfg_open_def)
  have l: "length ''<svg/>'' \<le> 1500000" by simp
  have c: "fst (assign_code rnd_ex (designs st_empty) (drawn st_empty)) = ''AAECAwQFBg''"
    by (simp add: assign_code_cases generate_code_rnd_ex st_empty_def query_first_def)
  have d: "new_design (designs st_empty) ''AAECAwQFBg'' (py_strip '' mug '') ''<svg/>''
      (state_text (\<lambda>v. []) JNull) now_ex = row_mug"
    by (simp add: row_mug_def strip_padded state_text_def st_empty_def)
  show ?thesis
    using round_trip [OF well_formed_req_padded l s g]
    by (simp add: Let_def c d a)
qed

end
